theory Spec2Isabelle
  imports Complex_Main "HOL-Library.Char_ord" "HOL-Library.List_Lexorder" "HOL-Library.Multiset"
begin

section \<open>Data model\<close>

text \<open>
  The interfaces of \<^verbatim>\<open>src/routes/index.tsx\<close> (lines 13-16) and the tables of
  \<^verbatim>\<open>src/lib/db.ts\<close>. A JavaScript \<^verbatim>\<open>number\<close> that carries an amount (price, tax,
  quantity, total) is a \<^typ>\<open>real\<close>. The total calculator and the actions are given
  twice: first with exact arithmetic, which is what a statement made with floating-point
  rounding aside is about, and then, in the section on double precision, with every
  operation rounded as the program rounds it. NaN and the infinities have no
  representation, and a field of a parsed item is never null: at these types the NOT NULL
  constraints of the tables cannot fail, where in the program a null field or a NaN total
  makes the INSERT throw like any other constraint violation. A \<^verbatim>\<open>number\<close> that is a
  row identifier is an \<^typ>\<open>int\<close>, as the INTEGER PRIMARY KEY columns are. TEXT is a
  \<^typ>\<open>string\<close>, a byte list compared bytewise, as SQLite's default BINARY collation
  compares. A nullable column is an option.
\<close>

record Customer =
  id :: int
  name :: string
  phone :: string
  email :: "string option"
  address :: "string option"

record Product =
  id :: int
  name :: string
  description :: "string option"
  price :: real
  tax :: real

record InvoiceItem = Product +
  quantity :: real

text \<open>Rows of the tables \<^verbatim>\<open>invoices\<close> and \<^verbatim>\<open>invoice_items\<close> (db.ts, lines 27-45).\<close>

record invoices_row =
  id :: int
  customerId :: int
  createdAt :: string
  totalAmount :: real

record invoice_items_row =
  id :: int
  invoiceId :: int
  productId :: int
  quantity :: real
  priceAtSale :: real
  taxAtSale :: real

text \<open>
  The rows the invoice loader returns: the columns of its two SELECT statements
  (index.tsx, lines 24 and 30), the second nested in the first as \<^verbatim>\<open>items\<close>.
\<close>

record history_item =
  name :: string
  description :: "string option"
  quantity :: real
  price :: real
  tax :: real

record Invoice =
  id :: int
  customerId :: int
  createdAt :: string
  totalAmount :: real
  customerName :: string
  items :: "history_item list"

text \<open>
  The database file: the four tables in rowid order, and the \<^verbatim>\<open>sqlite_sequence\<close>
  entry that AUTOINCREMENT keeps for each of them.
\<close>

record database =
  customers :: "Customer list"
  products :: "Product list"
  invoices :: "invoices_row list"
  invoice_items :: "invoice_items_row list"
  seq_customers :: int
  seq_products :: int
  seq_invoices :: int
  seq_invoice_items :: int

text \<open>\<^verbatim>\<open>initDb\<close> on a fresh file: CREATE TABLE IF NOT EXISTS leaves four empty tables.\<close>

definition initDb :: database where
  "initDb = \<lparr>customers = [], products = [], invoices = [], invoice_items = [],
     seq_customers = 0, seq_products = 0, seq_invoices = 0, seq_invoice_items = 0\<rparr>"

section \<open>Statements of the storage engine\<close>

datatype sqlite_code = SQLITE_CONSTRAINT_UNIQUE | SQLITE_CONSTRAINT_FOREIGNKEY

datatype exn = SqliteError sqlite_code | SyntaxError

text \<open>
  A statement run either throws and leaves the database as it was, or changes it and
  returns \<^verbatim>\<open>lastInsertRowid\<close>. Effects persist across statements: what a failed
  sequence has already written stays written unless a transaction rolls it back.
\<close>

type_synonym 'a stmt = "database \<Rightarrow> (exn + 'a) \<times> database"

text \<open>AUTOINCREMENT: one more than the largest rowid the table holds or has ever held.\<close>

definition fresh_rowid :: "int \<Rightarrow> int list \<Rightarrow> int" where
  "fresh_rowid seq ids = fold max ids seq + 1"

text \<open>INSERT INTO customers (index.tsx, line 43); \<^verbatim>\<open>phone\<close> is UNIQUE.\<close>

definition insert_customers ::
  "string \<Rightarrow> string \<Rightarrow> string option \<Rightarrow> string option \<Rightarrow> int stmt" where
  "insert_customers n p e a s =
     (if p \<in> set (map Customer.phone (customers s))
      then (Inl (SqliteError SQLITE_CONSTRAINT_UNIQUE), s)
      else let rowid = fresh_rowid (seq_customers s) (map Customer.id (customers s))
           in (Inr rowid,
               s\<lparr>customers := customers s @
                    [\<lparr>Customer.id = rowid, Customer.name = n, Customer.phone = p,
                      Customer.email = e, Customer.address = a\<rparr>],
                  seq_customers := rowid\<rparr>))"

text \<open>INSERT INTO products (index.tsx, line 47); no constraint can fail.\<close>

definition insert_products ::
  "string \<Rightarrow> string option \<Rightarrow> real \<Rightarrow> real \<Rightarrow> int stmt" where
  "insert_products n d p t s =
     (let rowid = fresh_rowid (seq_products s) (map Product.id (products s))
      in (Inr rowid,
          s\<lparr>products := products s @
               [\<lparr>Product.id = rowid, Product.name = n, Product.description = d,
                 Product.price = p, Product.tax = t\<rparr>],
             seq_products := rowid\<rparr>))"

text \<open>
  INSERT INTO invoices (index.tsx, lines 60-61); \<^verbatim>\<open>customerId\<close> references
  \<^verbatim>\<open>customers (id)\<close> and foreign keys are enforced (db.ts, line 7).
\<close>

definition invoiceStmt_run :: "int \<Rightarrow> string \<Rightarrow> real \<Rightarrow> int stmt" where
  "invoiceStmt_run cid now amount s =
     (if cid \<notin> set (map Customer.id (customers s))
      then (Inl (SqliteError SQLITE_CONSTRAINT_FOREIGNKEY), s)
      else let rowid = fresh_rowid (seq_invoices s) (map invoices_row.id (invoices s))
           in (Inr rowid,
               s\<lparr>invoices := invoices s @
                    [\<lparr>invoices_row.id = rowid, invoices_row.customerId = cid,
                      invoices_row.createdAt = now, invoices_row.totalAmount = amount\<rparr>],
                  seq_invoices := rowid\<rparr>))"

text \<open>
  INSERT INTO invoice_items (index.tsx, lines 64 and 66); \<^verbatim>\<open>invoiceId\<close> references
  \<^verbatim>\<open>invoices (id)\<close> and \<^verbatim>\<open>productId\<close> references \<^verbatim>\<open>products (id)\<close>.
\<close>

definition itemStmt_run :: "int \<Rightarrow> int \<Rightarrow> real \<Rightarrow> real \<Rightarrow> real \<Rightarrow> int stmt" where
  "itemStmt_run iid pid q p t s =
     (if iid \<notin> set (map invoices_row.id (invoices s)) \<or>
         pid \<notin> set (map Product.id (products s))
      then (Inl (SqliteError SQLITE_CONSTRAINT_FOREIGNKEY), s)
      else let rowid = fresh_rowid (seq_invoice_items s)
                         (map invoice_items_row.id (invoice_items s))
           in (Inr rowid,
               s\<lparr>invoice_items := invoice_items s @
                    [\<lparr>invoice_items_row.id = rowid, invoiceId = iid, productId = pid,
                      invoice_items_row.quantity = q, priceAtSale = p, taxAtSale = t\<rparr>],
                  seq_invoice_items := rowid\<rparr>))"

text \<open>
  \<^verbatim>\<open>db.transaction(fn)\<close> of better-sqlite3: BEGIN, run the body, COMMIT when it
  returns; when it throws, ROLLBACK to the state at BEGIN and rethrow.
\<close>

definition transaction :: "'a stmt \<Rightarrow> 'a stmt" where
  "transaction body s =
     (case body s of
        (Inl e, s') \<Rightarrow> (Inl e, s)
      | (Inr v, s') \<Rightarrow> (Inr v, s'))"

section \<open>Total calculator\<close>

text \<open>The server's reduce (index.tsx, lines 52-56).\<close>

definition computeTotalAmount :: "InvoiceItem list \<Rightarrow> real" where
  "computeTotalAmount its =
     foldl (\<lambda>acc item.
        let itemTotal = Product.price item * InvoiceItem.quantity item;
            taxAmount = itemTotal * (Product.tax item / 100)
        in acc + itemTotal + taxAmount) 0 its"

text \<open>The preview of the invoice-creation view (index.tsx, lines 222, 223 and 261).\<close>

definition subtotal :: "InvoiceItem list \<Rightarrow> real" where
  "subtotal its =
     foldl (\<lambda>acc item. acc + Product.price item * InvoiceItem.quantity item) 0 its"

definition totalTax :: "InvoiceItem list \<Rightarrow> real" where
  "totalTax its =
     foldl (\<lambda>acc item.
        acc + (Product.price item * InvoiceItem.quantity item * (Product.tax item / 100)))
       0 its"

definition previewTotal :: "InvoiceItem list \<Rightarrow> real" where
  "previewTotal its = subtotal its + totalTax its"

section \<open>Actions\<close>

text \<open>
  What a route action does with a submission: the zod schema rejects it and the body
  does not run (\<open>Invalid\<close>), the body returns a value, or the body throws and nothing
  in the action catches it.
\<close>

datatype 'r outcome = Invalid | Returned 'r | Uncaught exn

text \<open>
  The submitted fields. A text field is \<open>None\<close> when the submission lacks it. A field
  under \<^verbatim>\<open>z.coerce.number()\<close> holds the value of \<^verbatim>\<open>Number(field)\<close>, with \<open>None\<close> for NaN.
\<close>

record AddCustomerData =
  name :: "string option"
  phone :: "string option"
  email :: "string option"
  address :: "string option"

record AddProductData =
  name :: "string option"
  description :: "string option"
  price :: "real option"
  tax :: "real option"

record CreateInvoiceData =
  customerId :: "int option"
  itemsJSON :: "string option"

record CreateInvoiceResult =
  success :: bool
  error :: "string option"

text \<open>
  \<^verbatim>\<open>useAddCustomerAction\<close> (index.tsx, lines 42-44). The schema is
  \<^verbatim>\<open>name: z.string().min(1)\<close>, \<^verbatim>\<open>phone: z.string().min(1)\<close>,
  \<^verbatim>\<open>email: z.string().email().optional().or(z.literal(''))\<close>,
  \<^verbatim>\<open>address: z.string().optional()\<close>; zod's test for an email address is the
  parameter \<open>is_email\<close>. The body is the bare INSERT, with no try/catch around it.
  An absent optional field is bound as NULL.
\<close>

definition useAddCustomerAction ::
  "(string \<Rightarrow> bool) \<Rightarrow> AddCustomerData \<Rightarrow> database \<Rightarrow> unit outcome \<times> database" where
  "useAddCustomerAction is_email data s =
     (case (AddCustomerData.name data, AddCustomerData.phone data) of
        (Some n, Some p) \<Rightarrow>
          if 1 \<le> length n \<and> 1 \<le> length p \<and>
             (case AddCustomerData.email data of
                None \<Rightarrow> True | Some e \<Rightarrow> is_email e \<or> e = [])
          then (case insert_customers n p (AddCustomerData.email data)
                       (AddCustomerData.address data) s of
                  (Inl e, s') \<Rightarrow> (Uncaught e, s')
                | (Inr _, s') \<Rightarrow> (Returned (), s'))
          else (Invalid, s)
      | _ \<Rightarrow> (Invalid, s))"

text \<open>
  \<^verbatim>\<open>useAddProductAction\<close> (index.tsx, lines 46-48), schema \<^verbatim>\<open>name: z.string().min(1)\<close>,
  \<^verbatim>\<open>description: z.string().optional()\<close>, \<^verbatim>\<open>price: z.coerce.number().min(0)\<close>,
  \<^verbatim>\<open>tax: z.coerce.number().min(0)\<close>.
\<close>

definition useAddProductAction ::
  "AddProductData \<Rightarrow> database \<Rightarrow> unit outcome \<times> database" where
  "useAddProductAction data s =
     (case (AddProductData.name data, AddProductData.price data, AddProductData.tax data) of
        (Some n, Some p, Some t) \<Rightarrow>
          if 1 \<le> length n \<and> 0 \<le> p \<and> 0 \<le> t
          then (case insert_products n (AddProductData.description data) p t s of
                  (Inl e, s') \<Rightarrow> (Uncaught e, s')
                | (Inr _, s') \<Rightarrow> (Returned (), s'))
          else (Invalid, s)
      | _ \<Rightarrow> (Invalid, s))"

text \<open>The \<^verbatim>\<open>for (const item of items)\<close> loop of index.tsx, lines 65-67.\<close>

fun itemStmt_loop :: "int \<Rightarrow> InvoiceItem list \<Rightarrow> unit stmt" where
  "itemStmt_loop inv_id [] s = (Inr (), s)"
| "itemStmt_loop inv_id (item # rest) s =
     (case itemStmt_run inv_id (Product.id item) (InvoiceItem.quantity item)
             (Product.price item) (Product.tax item) s of
        (Inl e, s') \<Rightarrow> (Inl e, s')
      | (Inr _, s') \<Rightarrow> itemStmt_loop inv_id rest s')"

text \<open>The function handed to \<^verbatim>\<open>db.transaction\<close> (index.tsx, lines 59-68).\<close>

definition invoice_body :: "int \<Rightarrow> string \<Rightarrow> real \<Rightarrow> InvoiceItem list \<Rightarrow> unit stmt" where
  "invoice_body cid now amount its s =
     (case invoiceStmt_run cid now amount s of
        (Inl e, s') \<Rightarrow> (Inl e, s')
      | (Inr inv_id, s') \<Rightarrow> itemStmt_loop inv_id its s')"

text \<open>
  \<^verbatim>\<open>useCreateInvoiceAction\<close> (index.tsx, lines 50-77), schema
  \<^verbatim>\<open>customerId: z.coerce.number()\<close>, \<^verbatim>\<open>itemsJSON: z.string().min(1)\<close>.
  \<open>JSON_parse\<close> stands for \<^verbatim>\<open>JSON.parse\<close> read at the declared type
  \<^verbatim>\<open>InvoiceItem[]\<close>, \<open>None\<close> when it throws; the call is outside the try block, and so is
  the reduce, which throws on a parsed value that is not an array. \<open>now\<close> is
  \<^verbatim>\<open>new Date().toISOString()\<close>. The second component of the result is what the action
  writes with \<^verbatim>\<open>console.error\<close>.
\<close>

definition useCreateInvoiceAction ::
  "(string \<Rightarrow> InvoiceItem list option) \<Rightarrow> string \<Rightarrow> CreateInvoiceData \<Rightarrow> database \<Rightarrow>
     (CreateInvoiceResult outcome \<times> exn list) \<times> database" where
  "useCreateInvoiceAction JSON_parse now data s =
     (case (CreateInvoiceData.customerId data, itemsJSON data) of
        (Some cid, Some js) \<Rightarrow>
          if 1 \<le> length js
          then (case JSON_parse js of
                  None \<Rightarrow> ((Uncaught SyntaxError, []), s)
                | Some its \<Rightarrow>
                    (case transaction (invoice_body cid now (computeTotalAmount its) its) s of
                       (Inr _, s') \<Rightarrow> ((Returned \<lparr>success = True, error = None\<rparr>, []), s')
                     | (Inl e, s') \<Rightarrow>
                         ((Returned \<lparr>success = False,
                                     error = Some ''Failed to save invoice.''\<rparr>, [e]), s')))
          else ((Invalid, []), s)
      | _ \<Rightarrow> ((Invalid, []), s))"

section \<open>Loaders\<close>

text \<open>\<^verbatim>\<open>SELECT * FROM customers ORDER BY name\<close> and the same for products (lines 19-20).\<close>

definition useCustomersLoader :: "database \<Rightarrow> Customer list" where
  "useCustomersLoader s = sort_key Customer.name (customers s)"

definition useProductsLoader :: "database \<Rightarrow> Product list" where
  "useProductsLoader s = sort_key Product.name (products s)"

text \<open>
  The prepared statement \<^verbatim>\<open>itemsStmt\<close> (index.tsx, lines 29-33): invoice_items joined
  with products on \<^verbatim>\<open>ii.productId = p.id\<close>, restricted to one invoice.
\<close>

definition itemsStmt_all :: "database \<Rightarrow> int \<Rightarrow> history_item list" where
  "itemsStmt_all s i =
     [\<lparr>history_item.name = Product.name p, history_item.description = Product.description p,
       history_item.quantity = invoice_items_row.quantity ii,
       history_item.price = priceAtSale ii, history_item.tax = taxAtSale ii\<rparr>.
      ii \<leftarrow> invoice_items s, p \<leftarrow> products s,
      productId ii = Product.id p, invoiceId ii = i]"

text \<open>
  The first statement of \<^verbatim>\<open>useInvoicesLoader\<close> (index.tsx, lines 23-27): invoices joined
  with customers on \<^verbatim>\<open>i.customerId = c.id\<close>, in rowid order of invoices.
\<close>

definition invoices_join :: "database \<Rightarrow> Invoice list" where
  "invoices_join s =
     [\<lparr>Invoice.id = invoices_row.id i, Invoice.customerId = invoices_row.customerId i,
       Invoice.createdAt = invoices_row.createdAt i,
       Invoice.totalAmount = invoices_row.totalAmount i,
       customerName = Customer.name c, items = []\<rparr>.
      i \<leftarrow> invoices s, c \<leftarrow> customers s, invoices_row.customerId i = Customer.id c]"

text \<open>
  \<^verbatim>\<open>useInvoicesLoader\<close> (index.tsx, lines 22-39). ORDER BY createdAt DESC is a stable
  sort into descending order: rows with the same createdAt stay in rowid order, as
  SQLite's sorter returns them. Each row then gets its items.
\<close>

definition useInvoicesLoader :: "database \<Rightarrow> Invoice list" where
  "useInvoicesLoader s =
     map (\<lambda>invoice. invoice\<lparr>items := itemsStmt_all s (Invoice.id invoice)\<rparr>)
       (rev (sort_key Invoice.createdAt (rev (invoices_join s))))"

section \<open>Runs of the command interface\<close>

datatype command =
    AddCustomer AddCustomerData
  | AddProduct AddProductData
  | CreateInvoice string CreateInvoiceData

fun exec ::
  "(string \<Rightarrow> bool) \<Rightarrow> (string \<Rightarrow> InvoiceItem list option) \<Rightarrow> database \<Rightarrow> command \<Rightarrow> database"
  where
  "exec is_email JSON_parse s (AddCustomer data) = snd (useAddCustomerAction is_email data s)"
| "exec is_email JSON_parse s (AddProduct data) = snd (useAddProductAction data s)"
| "exec is_email JSON_parse s (CreateInvoice now data) =
     snd (useCreateInvoiceAction JSON_parse now data s)"

definition run ::
  "(string \<Rightarrow> bool) \<Rightarrow> (string \<Rightarrow> InvoiceItem list option) \<Rightarrow> command list \<Rightarrow> database" where
  "run is_email JSON_parse cmds = foldl (exec is_email JSON_parse) initDb cmds"

section \<open>Vocabulary of the statements\<close>

text \<open>The amount one stored line item stands for, and the lines of one invoice.\<close>

definition line_amount :: "invoice_items_row \<Rightarrow> real" where
  "line_amount ii = invoice_items_row.quantity ii * priceAtSale ii * (1 + taxAtSale ii / 100)"

definition lines_of :: "database \<Rightarrow> int \<Rightarrow> invoice_items_row list" where
  "lines_of s i = filter (\<lambda>ii. invoiceId ii = i) (invoice_items s)"

definition totals_match :: "database \<Rightarrow> bool" where
  "totals_match s =
     (\<forall>inv \<in> set (invoices s).
        invoices_row.totalAmount inv = sum_list (map line_amount (lines_of s (invoices_row.id inv))))"

text \<open>
  Key integrity of the two invoice tables: invoice ids are distinct (PRIMARY KEY) and
  every line item belongs to an invoice that exists (FOREIGN KEY).
\<close>

definition keys_ok :: "database \<Rightarrow> bool" where
  "keys_ok s \<longleftrightarrow>
     distinct (map invoices_row.id (invoices s)) \<and>
     (\<forall>ii \<in> set (invoice_items s). invoiceId ii \<in> set (map invoices_row.id (invoices s)))"

text \<open>Customer ids are distinct and every invoice names a customer that exists.\<close>

definition customer_keys_ok :: "database \<Rightarrow> bool" where
  "customer_keys_ok s \<longleftrightarrow>
     distinct (map Customer.id (customers s)) \<and>
     (\<forall>i \<in> set (invoices s).
        invoices_row.customerId i \<in> set (map Customer.id (customers s)))"

text \<open>Product ids are distinct and every line item names a product that exists.\<close>

definition product_keys_ok :: "database \<Rightarrow> bool" where
  "product_keys_ok s \<longleftrightarrow>
     distinct (map Product.id (products s)) \<and>
     (\<forall>ii \<in> set (invoice_items s). productId ii \<in> set (map Product.id (products s)))"

text \<open>Submissions whose items carry no negative price, quantity or tax.\<close>

definition nonneg_items :: "InvoiceItem list \<Rightarrow> bool" where
  "nonneg_items its \<longleftrightarrow>
     (\<forall>item \<in> set its. 0 \<le> Product.price item \<and> 0 \<le> InvoiceItem.quantity item \<and>
        0 \<le> Product.tax item)"

fun nonneg_command :: "(string \<Rightarrow> InvoiceItem list option) \<Rightarrow> command \<Rightarrow> bool" where
  "nonneg_command JSON_parse (CreateInvoice now data) =
     (case itemsJSON data of
        None \<Rightarrow> True
      | Some js \<Rightarrow> (case JSON_parse js of None \<Rightarrow> True | Some its \<Rightarrow> nonneg_items its))"
| "nonneg_command JSON_parse (AddCustomer data) = True"
| "nonneg_command JSON_parse (AddProduct data) = True"

definition totals_nonneg :: "database \<Rightarrow> bool" where
  "totals_nonneg s \<longleftrightarrow> (\<forall>inv \<in> set (invoices s). 0 \<le> invoices_row.totalAmount inv)"

text \<open>The invoices row that a successful header insert appends.\<close>

definition new_invoice :: "database \<Rightarrow> int \<Rightarrow> string \<Rightarrow> real \<Rightarrow> invoices_row" where
  "new_invoice s cid now amount =
     \<lparr>invoices_row.id = fresh_rowid (seq_invoices s) (map invoices_row.id (invoices s)),
      invoices_row.customerId = cid, invoices_row.createdAt = now,
      invoices_row.totalAmount = amount\<rparr>"

text \<open>An invoice_items row that stores one submitted item under invoice \<open>i\<close>.\<close>

definition row_of_item :: "int \<Rightarrow> invoice_items_row \<Rightarrow> InvoiceItem \<Rightarrow> bool" where
  "row_of_item i r item \<longleftrightarrow>
     invoiceId r = i \<and> productId r = Product.id item \<and>
     invoice_items_row.quantity r = InvoiceItem.quantity item \<and>
     priceAtSale r = Product.price item \<and> taxAtSale r = Product.tax item"

text \<open>The two object literals the create-invoice action returns (lines 72 and 75).\<close>

definition ok_result :: CreateInvoiceResult where
  "ok_result = \<lparr>success = True, error = None\<rparr>"

definition failed_result :: CreateInvoiceResult where
  "failed_result = \<lparr>success = False, error = Some ''Failed to save invoice.''\<rparr>"

text \<open>The columns of a history row that come from invoice_items.\<close>

definition snapshot :: "history_item \<Rightarrow> real \<times> real \<times> real" where
  "snapshot r = (history_item.quantity r, history_item.price r, history_item.tax r)"

section \<open>Double-precision arithmetic\<close>

text \<open>
  A JavaScript \<^verbatim>\<open>number\<close> is an IEEE 754 binary64 value, and \<^verbatim>\<open>+\<close>, \<^verbatim>\<open>*\<close> and \<^verbatim>\<open>/\<close>
  return the exact result rounded to the nearest such value, ties to the even significand.
  The definitions of the previous sections compute without that rounding; the ones below
  apply it after every operation. A double is kept as the real number it denotes. The
  exponent is unbounded here: overflow to Infinity, subnormal numbers, NaN and the sign of
  zero are not represented.
\<close>

definition round_half_even :: "real \<Rightarrow> int" where
  "round_half_even x =
     (let n = \<lfloor>x\<rfloor>
      in if x - of_int n < 1 / 2 then n
         else if 1 / 2 < x - of_int n then n + 1
         else if even n then n else n + 1)"

text \<open>
  Rounding of a positive real to 53 significant bits: scale by powers of two, which is
  exact, until the value lies in \<open>[2^52, 2^53)\<close>, round it to an integer, and scale back.
\<close>

function round53 :: "real \<Rightarrow> real" where
  "round53 x =
     (if x \<le> 0 then 0
      else if 2 ^ 53 \<le> x then 2 * round53 (x / 2)
      else if x < 2 ^ 52 then round53 (2 * x) / 2
      else of_int (round_half_even x))"
  by pat_completeness auto

termination round53
proof (relation "measure (\<lambda>x. if 2 ^ 53 \<le> x then nat \<lceil>x\<rceil>
      else if 0 < x \<and> x < 2 ^ 52 then nat \<lceil>2 ^ 52 / x\<rceil> else 0)")
  have half: "nat \<lceil>y / 2\<rceil> < nat \<lceil>y\<rceil>" if "2 \<le> y" for y :: real
  proof -
    have "y / 2 \<le> y - 1" using that by simp
    then have "\<lceil>y / 2\<rceil> \<le> \<lceil>y - 1\<rceil>" by (rule ceiling_mono)
    also have "\<dots> = \<lceil>y\<rceil> - 1" by simp
    finally have "\<lceil>y / 2\<rceil> < \<lceil>y\<rceil>" by simp
    moreover have "0 < \<lceil>y\<rceil>" using that by simp
    ultimately show ?thesis by simp
  qed
  show "wf (measure (\<lambda>x::real. if 2 ^ 53 \<le> x then nat \<lceil>x\<rceil>
      else if 0 < x \<and> x < 2 ^ 52 then nat \<lceil>2 ^ 52 / x\<rceil> else 0))"
    by simp
  show "(x / 2, x) \<in> measure (\<lambda>x. if 2 ^ 53 \<le> x then nat \<lceil>x\<rceil>
      else if 0 < x \<and> x < 2 ^ 52 then nat \<lceil>2 ^ 52 / x\<rceil> else 0)"
    if "\<not> x \<le> 0" "2 ^ 53 \<le> x" for x :: real
  proof -
    from that have big: "2 \<le> x" and pos: "0 < nat \<lceil>x\<rceil>" by simp_all
    have "\<not> (x / 2 < 2 ^ 52)" using that(2) by simp
    with half [OF big] pos that(2) show ?thesis by simp
  qed
  show "(2 * x, x) \<in> measure (\<lambda>x. if 2 ^ 53 \<le> x then nat \<lceil>x\<rceil>
      else if 0 < x \<and> x < 2 ^ 52 then nat \<lceil>2 ^ 52 / x\<rceil> else 0)"
    if a: "\<not> x \<le> 0" "\<not> 2 ^ 53 \<le> x" "x < 2 ^ 52" for x :: real
  proof -
    from a have "0 < 2 ^ 52 / x" by simp
    then have pos: "0 < nat \<lceil>2 ^ 52 / x\<rceil>" by simp
    have small: "\<not> 2 ^ 53 \<le> 2 * x" using a by simp
    show ?thesis
    proof (cases "2 * x < 2 ^ 52")
      case True
      then have "2 \<le> 2 ^ 52 / x" using a by (simp add: pos_le_divide_eq)
      from half [OF this] have "nat \<lceil>2 ^ 52 / (2 * x)\<rceil> < nat \<lceil>2 ^ 52 / x\<rceil>"
        by (simp add: field_simps)
      with True a small show ?thesis by simp
    next
      case False
      with a small pos show ?thesis by simp
    qed
  qed
qed

declare round53.simps [simp del]

text \<open>The double nearest to a real, and the three operations of the source.\<close>

definition double_of :: "real \<Rightarrow> real" where
  "double_of x = (if x < 0 then - round53 (- x) else round53 x)"

definition dadd :: "real \<Rightarrow> real \<Rightarrow> real" where
  "dadd a b = double_of (a + b)"

definition dmul :: "real \<Rightarrow> real \<Rightarrow> real" where
  "dmul a b = double_of (a * b)"

definition ddiv :: "real \<Rightarrow> real \<Rightarrow> real" where
  "ddiv a b = double_of (a / b)"

text \<open>The server's reduce (index.tsx, lines 52-56) in double precision.\<close>

definition computeTotalAmount_double :: "InvoiceItem list \<Rightarrow> real" where
  "computeTotalAmount_double its =
     foldl (\<lambda>acc item.
        let itemTotal = dmul (Product.price item) (InvoiceItem.quantity item);
            taxAmount = dmul itemTotal (ddiv (Product.tax item) 100)
        in dadd (dadd acc itemTotal) taxAmount) 0 its"





text \<open>
  \<^verbatim>\<open>useCreateInvoiceAction\<close> (index.tsx, lines 50-77) with the total computed in double
  precision; everything else is as in the definition above.
\<close>

definition useCreateInvoiceAction_double ::
  "(string \<Rightarrow> InvoiceItem list option) \<Rightarrow> string \<Rightarrow> CreateInvoiceData \<Rightarrow> database \<Rightarrow>
     (CreateInvoiceResult outcome \<times> exn list) \<times> database" where
  "useCreateInvoiceAction_double JSON_parse now data s =
     (case (CreateInvoiceData.customerId data, itemsJSON data) of
        (Some cid, Some js) \<Rightarrow>
          if 1 \<le> length js
          then (case JSON_parse js of
                  None \<Rightarrow> ((Uncaught SyntaxError, []), s)
                | Some its \<Rightarrow>
                    (case transaction
                            (invoice_body cid now (computeTotalAmount_double its) its) s of
                       (Inr _, s') \<Rightarrow> ((Returned \<lparr>success = True, error = None\<rparr>, []), s')
                     | (Inl e, s') \<Rightarrow>
                         ((Returned \<lparr>success = False,
                                     error = Some ''Failed to save invoice.''\<rparr>, [e]), s')))
          else ((Invalid, []), s)
      | _ \<Rightarrow> ((Invalid, []), s))"

text \<open>
  The sum of the claimed formula over stored lines, evaluated in double precision from
  left to right.
\<close>

definition line_amount_double :: "invoice_items_row \<Rightarrow> real" where
  "line_amount_double ii =
     dmul (dmul (invoice_items_row.quantity ii) (priceAtSale ii))
          (dadd 1 (ddiv (taxAtSale ii) 100))"

definition lines_amount_double :: "invoice_items_row list \<Rightarrow> real" where
  "lines_amount_double rows = foldl (\<lambda>acc ii. dadd acc (line_amount_double ii)) 0 rows"

section \<open>Sample data\<close>

definition ann :: AddCustomerData where
  "ann = \<lparr>AddCustomerData.name = Some ''Ann'', AddCustomerData.phone = Some ''555'',
     AddCustomerData.email = None, AddCustomerData.address = None\<rparr>"

definition bob :: AddCustomerData where
  "bob = \<lparr>AddCustomerData.name = Some ''Bob'', AddCustomerData.phone = Some ''555'',
     AddCustomerData.email = None, AddCustomerData.address = None\<rparr>"

definition zed :: AddCustomerData where
  "zed = \<lparr>AddCustomerData.name = Some ''Zed'', AddCustomerData.phone = Some ''777'',
     AddCustomerData.email = Some ''zed@example.org'', AddCustomerData.address = None\<rparr>"

definition widget :: AddProductData where
  "widget = \<lparr>AddProductData.name = Some ''Widget'', AddProductData.description = None,
     AddProductData.price = Some 100, AddProductData.tax = Some 10\<rparr>"

definition gadget :: AddProductData where
  "gadget = \<lparr>AddProductData.name = Some ''Gadget'', AddProductData.description = None,
     AddProductData.price = Some 50, AddProductData.tax = Some 0\<rparr>"

definition line :: "int \<Rightarrow> string \<Rightarrow> real \<Rightarrow> real \<Rightarrow> real \<Rightarrow> InvoiceItem" where
  "line i n p t q = \<lparr>Product.id = i, Product.name = n, Product.description = None,
     Product.price = p, Product.tax = t, InvoiceItem.quantity = q\<rparr>"

text \<open>The items of the example in section 8 of the specification.\<close>

definition spec_items :: "InvoiceItem list" where
  "spec_items = [line 1 ''Widget'' 100 10 2, line 2 ''Gadget'' 50 0 1]"

text \<open>A list whose second item names a product that no row of products has.\<close>

definition ghost_items :: "InvoiceItem list" where
  "ghost_items = [line 1 ''Widget'' 100 10 2, line 7 ''Ghost'' 5 0 1]"

text \<open>A list with a negative quantity.\<close>

definition returned_items :: "InvoiceItem list" where
  "returned_items = [line 1 ''Widget'' 100 10 (- 3)]"

text \<open>The JSON texts of the three lists, as \<^verbatim>\<open>JSON.stringify\<close> writes them.\<close>

definition spec_json :: string where
  \<open>spec_json = ''[{"id":1,"name":"Widget","description":null,"price":100,"tax":10,"quantity":2},{"id":2,"name":"Gadget","description":null,"price":50,"tax":0,"quantity":1}]''\<close>

definition ghost_json :: string where
  \<open>ghost_json = ''[{"id":1,"name":"Widget","description":null,"price":100,"tax":10,"quantity":2},{"id":7,"name":"Ghost","description":null,"price":5,"tax":0,"quantity":1}]''\<close>

definition returned_json :: string where
  \<open>returned_json = ''[{"id":1,"name":"Widget","description":null,"price":100,"tax":10,"quantity":-3}]''\<close>

text \<open>
  \<^verbatim>\<open>JSON.parse\<close> on four texts: the empty array and the three texts above. Every other
  text is taken not to parse.
\<close>

definition sample_JSON_parse :: "string \<Rightarrow> InvoiceItem list option" where
  "sample_JSON_parse js =
     (if js = ''[]'' then Some []
      else if js = spec_json then Some spec_items
      else if js = ghost_json then Some ghost_items
      else if js = returned_json then Some returned_items
      else None)"

definition sample_is_email :: "string \<Rightarrow> bool" where
  "sample_is_email e \<longleftrightarrow> CHR ''@'' \<in> set e"

definition submit :: "int \<Rightarrow> string \<Rightarrow> CreateInvoiceData" where
  "submit cid js = \<lparr>CreateInvoiceData.customerId = Some cid, itemsJSON = Some js\<rparr>"

text \<open>A database with customer 1 and products 1 and 2, and no invoice.\<close>

definition shop :: database where
  "shop = run sample_is_email sample_JSON_parse
     [AddCustomer ann, AddProduct widget, AddProduct gadget]"

text \<open>A session that ends with the invoice of the specification's example.\<close>

definition spec_run :: "command list" where
  "spec_run = [AddCustomer ann, AddProduct widget, AddProduct gadget,
     CreateInvoice ''2024-05-01T10:00:00.000Z'' (submit 1 spec_json)]"

text \<open>
  A session with two customers and two products entered out of name order, and two
  invoices: invoice 1 for Ann on 1 May, invoice 2 for Zed on 2 May.
\<close>

definition busy_run :: "command list" where
  "busy_run = [AddCustomer zed, AddCustomer ann, AddProduct widget, AddProduct gadget,
     CreateInvoice ''2024-05-01T10:00:00.000Z'' (submit 2 spec_json),
     CreateInvoice ''2024-05-02T09:00:00.000Z'' (submit 1 spec_json)]"

definition busy :: database where
  "busy = run sample_is_email sample_JSON_parse busy_run"

text \<open>
  The busy database after its products table was changed from outside the command
  interface: product 1 renamed and repriced, the row of product 2 gone.
\<close>

definition retouched :: database where
  "retouched = busy\<lparr>products :=
     [\<lparr>Product.id = 1, Product.name = ''Widget Pro'', Product.description = Some ''renamed'',
       Product.price = 999, Product.tax = 5\<rparr>]\<rparr>"

text \<open>
  A stationer's products, a pen at 1 and ink at 1.9, both taxed 5 percent; the price of
  the ink is the double that the text \<^verbatim>\<open>1.9\<close> denotes.
\<close>

definition pen :: AddProductData where
  "pen = \<lparr>AddProductData.name = Some ''Pen'', AddProductData.description = None,
     AddProductData.price = Some 1, AddProductData.tax = Some 5\<rparr>"

definition ink :: AddProductData where
  "ink = \<lparr>AddProductData.name = Some ''Ink'', AddProductData.description = None,
     AddProductData.price = Some (double_of (19 / 10)), AddProductData.tax = Some 5\<rparr>"

text \<open>One pen and one ink, as the invoice-creation view submits them.\<close>

definition stationery_items :: "InvoiceItem list" where
  "stationery_items = [line 1 ''Pen'' 1 5 1, line 2 ''Ink'' (double_of (19 / 10)) 5 1]"

definition stationery_json :: string where
  \<open>stationery_json = ''[{"id":1,"name":"Pen","description":null,"price":1,"tax":5,"quantity":1},{"id":2,"name":"Ink","description":null,"price":1.9,"tax":5,"quantity":1}]''\<close>

definition stationery_JSON_parse :: "string \<Rightarrow> InvoiceItem list option" where
  "stationery_JSON_parse js = (if js = stationery_json then Some stationery_items else None)"

text \<open>A database with customer 1 and the two products, and no invoice.\<close>

definition stationer :: database where
  "stationer = run sample_is_email stationery_JSON_parse
     [AddCustomer ann, AddProduct pen, AddProduct ink]"

section \<open>Helper lemmas\<close>

subsection \<open>Sums\<close>

lemma foldl_add_sum_list:
  fixes a :: real
  shows "foldl (\<lambda>acc x. acc + f x) a xs = a + sum_list (map f xs)"
  by (induction xs arbitrary: a) (simp_all add: add.assoc)

lemma subtotal_sum: "subtotal its =
    (\<Sum>item\<leftarrow>its. Product.price item * InvoiceItem.quantity item)"
  by (simp add: subtotal_def foldl_add_sum_list)

lemma totalTax_sum: "totalTax its =
    (\<Sum>item\<leftarrow>its. Product.price item * InvoiceItem.quantity item * Product.tax item / 100)"
  by (simp add: totalTax_def foldl_add_sum_list)

lemma computeTotalAmount_sum: "computeTotalAmount its =
    (\<Sum>item\<leftarrow>its. Product.price item * InvoiceItem.quantity item +
       Product.price item * InvoiceItem.quantity item * Product.tax item / 100)"
proof -
  have "computeTotalAmount its =
      foldl (\<lambda>acc item. acc + (Product.price item * InvoiceItem.quantity item +
        Product.price item * InvoiceItem.quantity item * Product.tax item / 100)) 0 its"
    by (simp add: computeTotalAmount_def Let_def add.assoc)
  then show ?thesis
    by (simp add: foldl_add_sum_list)
qed

lemma computeTotalAmount_nonneg:
  assumes "nonneg_items its"
  shows "0 \<le> computeTotalAmount its"
proof -
  have "0 \<le> Product.price item * InvoiceItem.quantity item +
       Product.price item * InvoiceItem.quantity item * Product.tax item / 100"
    if "item \<in> set its" for item
    using assms that by (simp add: nonneg_items_def)
  then show ?thesis
    unfolding computeTotalAmount_sum by (intro sum_list_nonneg) auto
qed

subsection \<open>Row identifiers\<close>

lemma fold_max_ge_init: "(a::int) \<le> fold max ids a"
  by (induction ids arbitrary: a) (auto intro: order_trans [OF max.cobounded2])

lemma fold_max_ge_elem: "(x::int) \<in> set ids \<Longrightarrow> x \<le> fold max ids a"
proof (induction ids arbitrary: a)
  case Nil
  then show ?case by simp
next
  case (Cons y ys)
  show ?case
  proof (cases "x = y")
    case True
    have "y \<le> max y a" by simp
    also have "\<dots> \<le> fold max ys (max y a)" by (rule fold_max_ge_init)
    finally show ?thesis using True by simp
  next
    case False
    with Cons show ?thesis by simp
  qed
qed

lemma fresh_rowid_notin: "fresh_rowid seq ids \<notin> set ids"
proof
  assume "fresh_rowid seq ids \<in> set ids"
  then have "fresh_rowid seq ids \<le> fold max ids seq" by (rule fold_max_ge_elem)
  then show False by (simp add: fresh_rowid_def)
qed

subsection \<open>Statements, the loop and the transaction\<close>

lemma itemStmt_run_Inr:
  assumes "itemStmt_run i pid q p t s = (Inr v, s')"
  shows "customers s' = customers s" "products s' = products s" "invoices s' = invoices s"
    "seq_customers s' = seq_customers s" "seq_products s' = seq_products s"
    "seq_invoices s' = seq_invoices s"
    "\<exists>r. invoice_items s' = invoice_items s @ [r] \<and> invoiceId r = i \<and> productId r = pid \<and>
       invoice_items_row.quantity r = q \<and> priceAtSale r = p \<and> taxAtSale r = t"
    "i \<in> set (map invoices_row.id (invoices s))" "pid \<in> set (map Product.id (products s))"
  using assms by (auto simp: itemStmt_run_def Let_def split: if_splits)

lemma itemStmt_run_Inl:
  assumes "itemStmt_run i pid q p t s = (Inl e, s')"
  shows "s' = s" "e = SqliteError SQLITE_CONSTRAINT_FOREIGNKEY"
   "i \<notin> set (map invoices_row.id (invoices s)) \<or> pid \<notin> set (map Product.id (products s))"
  using assms by (auto simp: itemStmt_run_def Let_def split: if_splits)

lemma itemStmt_loop_Inr:
  "itemStmt_loop i its s = (Inr u, s') \<Longrightarrow>
     customers s' = customers s \<and> products s' = products s \<and> invoices s' = invoices s \<and>
     (\<exists>rows. invoice_items s' = invoice_items s @ rows \<and> list_all2 (row_of_item i) rows its)"
proof (induction its arbitrary: s)
  case Nil
  then show ?case by simp
next
  case (Cons item rest)
  from Cons.prems obtain v s1 where
    first: "itemStmt_run i (Product.id item) (InvoiceItem.quantity item)
             (Product.price item) (Product.tax item) s = (Inr v, s1)"
    and rest: "itemStmt_loop i rest s1 = (Inr u, s')"
    by (auto split: prod.splits sum.splits)
  from itemStmt_run_Inr(7) [OF first] obtain r where
    r: "invoice_items s1 = invoice_items s @ [r]" "row_of_item i r item"
    by (auto simp: row_of_item_def)
  from Cons.IH [OF rest] obtain rows where
    rows: "invoice_items s' = invoice_items s1 @ rows" "list_all2 (row_of_item i) rows rest"
    and keep: "customers s' = customers s1" "products s' = products s1" "invoices s' = invoices s1"
    by blast
  have "invoice_items s' = invoice_items s @ (r # rows)" using r rows by simp
  moreover have "list_all2 (row_of_item i) (r # rows) (item # rest)" using r rows by simp
  ultimately show ?case
    using keep itemStmt_run_Inr(1-3) [OF first] by metis
qed

lemma itemStmt_loop_missing:
  "\<exists>item \<in> set its. Product.id item \<notin> set (map Product.id (products s)) \<Longrightarrow>
   \<exists>s'. itemStmt_loop i its s = (Inl (SqliteError SQLITE_CONSTRAINT_FOREIGNKEY), s')"
proof (induction its arbitrary: s)
  case Nil
  then show ?case by simp
next
  case (Cons item rest)
  show ?case
  proof (cases "itemStmt_run i (Product.id item) (InvoiceItem.quantity item)
             (Product.price item) (Product.tax item) s")
    case (Pair x s1)
    show ?thesis
    proof (cases x)
      case (Inl e)
      with Pair itemStmt_run_Inl(2) [of i _ _ _ _ s e s1] show ?thesis by simp
    next
      case (Inr v)
      with Pair have first: "itemStmt_run i (Product.id item) (InvoiceItem.quantity item)
             (Product.price item) (Product.tax item) s = (Inr v, s1)" by simp
      from itemStmt_run_Inr(9) [OF first] Cons.prems itemStmt_run_Inr(2) [OF first]
      have "\<exists>item \<in> set rest. Product.id item \<notin> set (map Product.id (products s1))"
        by auto
      from Cons.IH [OF this] show ?thesis using first by simp
    qed
  qed
qed

lemma invoiceStmt_run_Inr:
  assumes "invoiceStmt_run cid now amount s = (Inr v, s')"
  shows "customers s' = customers s" "products s' = products s"
    "invoice_items s' = invoice_items s"
    "invoices s' = invoices s @ [new_invoice s cid now amount]"
    "v = invoices_row.id (new_invoice s cid now amount)"
    "cid \<in> set (map Customer.id (customers s))"
  using assms by (auto simp: invoiceStmt_run_def new_invoice_def Let_def split: if_splits)

lemma invoice_body_Inr:
  assumes "invoice_body cid now amount its s = (Inr u, s')"
  shows "customers s' = customers s \<and> products s' = products s \<and>
     invoices s' = invoices s @ [new_invoice s cid now amount] \<and>
     (\<exists>rows. invoice_items s' = invoice_items s @ rows \<and>
        list_all2 (row_of_item (invoices_row.id (new_invoice s cid now amount))) rows its)"
proof -
  from assms obtain v s1 where
    hdr: "invoiceStmt_run cid now amount s = (Inr v, s1)"
    and loop: "itemStmt_loop v its s1 = (Inr u, s')"
    by (auto simp: invoice_body_def split: prod.splits sum.splits)
  note h = invoiceStmt_run_Inr [OF hdr]
  from itemStmt_loop_Inr [OF loop] h show ?thesis by simp
qed

lemma transaction_Inl: "transaction body s = (Inl e, s') \<Longrightarrow> s' = s"
  by (auto simp: transaction_def split: prod.splits sum.splits)

lemma transaction_Inr: "transaction body s = (Inr v, s') \<Longrightarrow> body s = (Inr v, s')"
  by (auto simp: transaction_def split: prod.splits sum.splits)

subsection \<open>The actions\<close>

lemma useCreateInvoiceAction_cases:
  assumes "useCreateInvoiceAction JSON_parse now data s = ((out, logged), s')"
  shows "(out = Invalid \<and> logged = [] \<and> s' = s \<and>
           (CreateInvoiceData.customerId data = None \<or> itemsJSON data = None \<or>
            itemsJSON data = Some [])) \<or>
         (\<exists>cid js. CreateInvoiceData.customerId data = Some cid \<and> itemsJSON data = Some js \<and>
            js \<noteq> [] \<and>
            (JSON_parse js = None \<and> out = Uncaught SyntaxError \<and> logged = [] \<and> s' = s \<or>
             (\<exists>its. JSON_parse js = Some its \<and>
                ((\<exists>e s1. invoice_body cid now (computeTotalAmount its) its s = (Inl e, s1) \<and>
                    out = Returned failed_result \<and> logged = [e] \<and> s' = s) \<or>
                 (invoice_body cid now (computeTotalAmount its) its s = (Inr (), s') \<and>
                    out = Returned ok_result \<and> logged = [])))))"
proof (cases "CreateInvoiceData.customerId data")
  case None
  with assms show ?thesis by (simp add: useCreateInvoiceAction_def)
next
  case cid: (Some cid)
  show ?thesis
  proof (cases "itemsJSON data")
    case None
    with assms cid show ?thesis by (simp add: useCreateInvoiceAction_def)
  next
    case js: (Some js)
    show ?thesis
    proof (cases "js = []")
      case True
      with assms cid js show ?thesis by (simp add: useCreateInvoiceAction_def)
    next
      case nonempty: False
      then have len: "1 \<le> length js" by (cases js) simp_all
      show ?thesis
      proof (cases "JSON_parse js")
        case None
        with assms cid js len nonempty show ?thesis
          by (simp add: useCreateInvoiceAction_def)
      next
        case its: (Some its)
        obtain x s1 where body: "invoice_body cid now (computeTotalAmount its) its s = (x, s1)"
          by (cases "invoice_body cid now (computeTotalAmount its) its s")
        show ?thesis
        proof (cases x)
          case (Inl e)
          with assms cid js len its body nonempty show ?thesis
            by (auto simp: useCreateInvoiceAction_def transaction_def failed_result_def)
        next
          case (Inr u)
          with assms cid js len its body nonempty show ?thesis
            by (auto simp: useCreateInvoiceAction_def transaction_def ok_result_def)
        qed
      qed
    qed
  qed
qed

lemma useCreateInvoiceAction_success:
  assumes "useCreateInvoiceAction JSON_parse now data s = ((Returned ok_result, logged), s')"
  shows "\<exists>cid js its. CreateInvoiceData.customerId data = Some cid \<and>
     itemsJSON data = Some js \<and> JSON_parse js = Some its \<and>
     invoices s' = invoices s @ [new_invoice s cid now (computeTotalAmount its)]"
  using useCreateInvoiceAction_cases [OF assms] invoice_body_Inr
  by (auto simp: ok_result_def failed_result_def)

lemma useCreateInvoiceAction_Invalid:
  "fst (fst (useCreateInvoiceAction JSON_parse now data s)) = Invalid \<longleftrightarrow>
     CreateInvoiceData.customerId data = None \<or> itemsJSON data = None \<or>
     itemsJSON data = Some []"
proof -
  obtain out logged s' where
    run: "useCreateInvoiceAction JSON_parse now data s = ((out, logged), s')"
    by (metis surj_pair)
  from useCreateInvoiceAction_cases [OF run] run show ?thesis by auto
qed

lemma useAddCustomerAction_duplicate_phone:
  assumes "AddCustomerData.phone data = Some p" "p \<in> set (map Customer.phone (customers s))"
  shows "useAddCustomerAction is_email data s = (Invalid, s) \<or>
         useAddCustomerAction is_email data s =
           (Uncaught (SqliteError SQLITE_CONSTRAINT_UNIQUE), s)"
  using assms
  by (auto simp: useAddCustomerAction_def insert_customers_def split: option.splits)

lemma useAddCustomerAction_invoices:
  "invoices (snd (useAddCustomerAction is_email data s)) = invoices s \<and>
   invoice_items (snd (useAddCustomerAction is_email data s)) = invoice_items s"
  by (simp add: useAddCustomerAction_def insert_customers_def Let_def
      split: option.splits prod.splits sum.splits)

lemma useAddProductAction_invoices:
  "invoices (snd (useAddProductAction data s)) = invoices s \<and>
   invoice_items (snd (useAddProductAction data s)) = invoice_items s"
  by (simp add: useAddProductAction_def insert_products_def Let_def
      split: option.splits prod.splits sum.splits)

subsection \<open>Invariants of the invoice tables\<close>

lemma rows_amount:
  "list_all2 (row_of_item i) rows its \<Longrightarrow>
   sum_list (map line_amount rows) = computeTotalAmount its"
proof (induction rows its rule: list_all2_induct)
  case Nil
  then show ?case by (simp add: computeTotalAmount_sum)
next
  case (Cons r rows item its)
  have "line_amount r = Product.price item * InvoiceItem.quantity item +
       Product.price item * InvoiceItem.quantity item * Product.tax item / 100"
    using Cons.hyps(1) by (simp add: row_of_item_def line_amount_def algebra_simps)
  with Cons.IH show ?case by (simp add: computeTotalAmount_sum)
qed

lemma rows_invoiceId:
  "list_all2 (row_of_item i) rows its \<Longrightarrow> \<forall>r \<in> set rows. invoiceId r = i"
  by (induction rows its rule: list_all2_induct) (simp_all add: row_of_item_def)

lemma invoice_tables_cong:
  assumes "invoices s' = invoices s" "invoice_items s' = invoice_items s"
  shows "keys_ok s' = keys_ok s" "totals_match s' = totals_match s"
  using assms by (simp_all add: keys_ok_def totals_match_def lines_of_def)

lemma append_invoice_ok:
  assumes ok: "keys_ok s" "totals_match s"
    and inv: "invoices s' = invoices s @ [n]"
    and fresh: "invoices_row.id n \<notin> set (map invoices_row.id (invoices s))"
    and items: "invoice_items s' = invoice_items s @ rows"
    and rows: "\<forall>r \<in> set rows. invoiceId r = invoices_row.id n"
    and amount: "invoices_row.totalAmount n = sum_list (map line_amount rows)"
  shows "keys_ok s' \<and> totals_match s'"
proof
  show "keys_ok s'"
    using ok(1) inv fresh items rows by (auto simp: keys_ok_def)
next
  have old_none: "filter (\<lambda>ii. invoiceId ii = invoices_row.id n) (invoice_items s) = []"
  proof -
    have "invoiceId ii \<noteq> invoices_row.id n" if "ii \<in> set (invoice_items s)" for ii
    proof
      assume "invoiceId ii = invoices_row.id n"
      moreover from ok(1) that
      have "invoiceId ii \<in> set (map invoices_row.id (invoices s))"
        by (simp add: keys_ok_def)
      ultimately show False using fresh by metis
    qed
    then show ?thesis by (simp add: filter_empty_conv)
  qed
  have new_all: "filter (\<lambda>ii. invoiceId ii = invoices_row.id n) rows = rows"
    using rows by (simp add: filter_id_conv)
  have new: "lines_of s' (invoices_row.id n) = rows"
    by (simp add: lines_of_def items old_none new_all)
  have old: "lines_of s' (invoices_row.id inv) = lines_of s (invoices_row.id inv)"
    if "inv \<in> set (invoices s)" for inv
  proof -
    from that have "invoices_row.id inv \<in> set (map invoices_row.id (invoices s))"
      by simp
    with fresh have "invoices_row.id inv \<noteq> invoices_row.id n" by metis
    with rows have "filter (\<lambda>ii. invoiceId ii = invoices_row.id inv) rows = []"
      by (auto simp: filter_empty_conv)
    then show ?thesis by (simp add: lines_of_def items)
  qed
  show "totals_match s'"
    unfolding totals_match_def
  proof
    fix inv assume "inv \<in> set (invoices s')"
    then consider "inv \<in> set (invoices s)" | "inv = n" using inv by auto
    then show "invoices_row.totalAmount inv =
        sum_list (map line_amount (lines_of s' (invoices_row.id inv)))"
    proof cases
      case 1
      with ok(2) old show ?thesis by (simp add: totals_match_def)
    next
      case 2
      with new amount show ?thesis by simp
    qed
  qed
qed

lemma useCreateInvoiceAction_ok:
  assumes ok: "keys_ok s" "totals_match s"
  shows "keys_ok (snd (useCreateInvoiceAction JSON_parse now data s)) \<and>
         totals_match (snd (useCreateInvoiceAction JSON_parse now data s))"
proof -
  obtain out logged s' where
    run: "useCreateInvoiceAction JSON_parse now data s = ((out, logged), s')"
    by (metis surj_pair)
  show ?thesis
  proof (cases "s' = s")
    case True
    with run ok show ?thesis by simp
  next
    case False
    with useCreateInvoiceAction_cases [OF run] obtain cid its where
      body: "invoice_body cid now (computeTotalAmount its) its s = (Inr (), s')"
      by auto
    from invoice_body_Inr [OF body] obtain rows where
      inv: "invoices s' = invoices s @ [new_invoice s cid now (computeTotalAmount its)]"
      and items: "invoice_items s' = invoice_items s @ rows"
      and rows: "list_all2 (row_of_item
          (invoices_row.id (new_invoice s cid now (computeTotalAmount its)))) rows its"
      by blast
    have fresh: "invoices_row.id (new_invoice s cid now (computeTotalAmount its))
        \<notin> set (map invoices_row.id (invoices s))"
      by (simp add: new_invoice_def fresh_rowid_notin del: set_map)
    have amount: "invoices_row.totalAmount (new_invoice s cid now (computeTotalAmount its)) =
        sum_list (map line_amount rows)"
      using rows_amount [OF rows] by (simp add: new_invoice_def)
    from append_invoice_ok [OF ok inv fresh items rows_invoiceId [OF rows] amount] run
    show ?thesis by simp
  qed
qed

lemma exec_ok:
  "keys_ok s \<and> totals_match s \<Longrightarrow>
   keys_ok (exec is_email JSON_parse s c) \<and> totals_match (exec is_email JSON_parse s c)"
proof (cases c)
  case (AddCustomer data)
  assume "keys_ok s \<and> totals_match s"
  with invoice_tables_cong [of "snd (useAddCustomerAction is_email data s)" s]
    useAddCustomerAction_invoices [of is_email data s] AddCustomer
  show ?thesis by simp
next
  case (AddProduct data)
  assume "keys_ok s \<and> totals_match s"
  with invoice_tables_cong [of "snd (useAddProductAction data s)" s]
    useAddProductAction_invoices [of data s] AddProduct
  show ?thesis by simp
next
  case (CreateInvoice now data)
  assume "keys_ok s \<and> totals_match s"
  with useCreateInvoiceAction_ok [of s JSON_parse now data] CreateInvoice
  show ?thesis by simp
qed

lemma foldl_exec_ok:
  "keys_ok s \<and> totals_match s \<Longrightarrow>
   keys_ok (foldl (exec is_email JSON_parse) s cmds) \<and>
   totals_match (foldl (exec is_email JSON_parse) s cmds)"
proof (induction cmds arbitrary: s)
  case Nil
  then show ?case by simp
next
  case (Cons c cmds)
  from Cons.IH [OF exec_ok [OF Cons.prems]] show ?case by simp
qed

lemma initDb_ok: "keys_ok initDb \<and> totals_match initDb"
  by (simp add: keys_ok_def totals_match_def initDb_def)

lemma exec_totals_nonneg:
  assumes "totals_nonneg s" "nonneg_command JSON_parse c"
  shows "totals_nonneg (exec is_email JSON_parse s c)"
proof (cases c)
  case (AddCustomer data)
  with assms(1) useAddCustomerAction_invoices [of is_email data s]
  show ?thesis by (simp add: totals_nonneg_def)
next
  case (AddProduct data)
  with assms(1) useAddProductAction_invoices [of data s]
  show ?thesis by (simp add: totals_nonneg_def)
next
  case (CreateInvoice now data)
  obtain out logged s' where
    run: "useCreateInvoiceAction JSON_parse now data s = ((out, logged), s')"
    by (metis surj_pair)
  show ?thesis
  proof (cases "s' = s")
    case True
    with run assms(1) CreateInvoice show ?thesis by simp
  next
    case False
    with useCreateInvoiceAction_cases [OF run] obtain cid js its where
      js: "itemsJSON data = Some js" "JSON_parse js = Some its"
      and body: "invoice_body cid now (computeTotalAmount its) its s = (Inr (), s')"
      by auto
    from js assms(2) CreateInvoice have "nonneg_items its" by simp
    then have "0 \<le> computeTotalAmount its" by (rule computeTotalAmount_nonneg)
    with invoice_body_Inr [OF body] assms(1) have "totals_nonneg s'"
      by (auto simp: totals_nonneg_def new_invoice_def)
    with run CreateInvoice show ?thesis by simp
  qed
qed

lemma foldl_totals_nonneg:
  "totals_nonneg s \<Longrightarrow> \<forall>c \<in> set cmds. nonneg_command JSON_parse c \<Longrightarrow>
   totals_nonneg (foldl (exec is_email JSON_parse) s cmds)"
proof (induction cmds arbitrary: s)
  case Nil
  then show ?case by simp
next
  case (Cons c cmds)
  from Cons.prems have "totals_nonneg (exec is_email JSON_parse s c)"
    by (simp add: exec_totals_nonneg)
  from Cons.IH [OF this] Cons.prems(2) show ?case by simp
qed

subsection \<open>The joins of the loaders\<close>

lemma single_match:
  "distinct (map f cs) \<Longrightarrow> k \<in> set (map f cs) \<Longrightarrow>
   \<exists>c \<in> set cs. f c = k \<and> concat (map (\<lambda>c. if k = f c then [g c] else []) cs) = [g c]"
proof (induction cs)
  case Nil
  then show ?case by simp
next
  case (Cons a cs)
  show ?case
  proof (cases "k = f a")
    case True
    with Cons.prems(1) have "\<forall>c \<in> set cs. k \<noteq> f c" by auto
    then have "concat (map (\<lambda>c. if k = f c then [g c] else []) cs) = []" by simp
    with True show ?thesis by simp
  next
    case False
    with Cons.prems have "distinct (map f cs)" "k \<in> set (map f cs)" by auto
    from Cons.IH [OF this] False show ?thesis by auto
  qed
qed

lemma invoices_join_ids:
  assumes "customer_keys_ok s"
  shows "map Invoice.id (invoices_join s) = map invoices_row.id (invoices s)"
proof -
  define g :: "invoices_row \<Rightarrow> Customer \<Rightarrow> Invoice" where "g = (\<lambda>i c.
     \<lparr>Invoice.id = invoices_row.id i, Invoice.customerId = invoices_row.customerId i,
      Invoice.createdAt = invoices_row.createdAt i,
      Invoice.totalAmount = invoices_row.totalAmount i,
      customerName = Customer.name c, items = []\<rparr>)"
  have join: "invoices_join s =
      concat (map (\<lambda>i. concat (map (\<lambda>c.
        if invoices_row.customerId i = Customer.id c then [g i c] else []) (customers s)))
        (invoices s))"
    unfolding invoices_join_def g_def by (rule refl)
  have id: "Invoice.id (g i c) = invoices_row.id i" for i c
    by (simp add: g_def)
  have one: "\<exists>c. concat (map (\<lambda>c.
        if invoices_row.customerId i = Customer.id c then [g i c] else []) (customers s)) =
        [g i c]"
    if "i \<in> set (invoices s)" for i
  proof -
    from assms that have "distinct (map Customer.id (customers s))"
      and "invoices_row.customerId i \<in> set (map Customer.id (customers s))"
      by (simp_all add: customer_keys_ok_def)
    from single_match [OF this, of "g i"] show ?thesis by blast
  qed
  have "map Invoice.id (concat (map (\<lambda>i. concat (map (\<lambda>c.
        if invoices_row.customerId i = Customer.id c then [g i c] else []) (customers s)))
        rows)) = map invoices_row.id rows"
    if "set rows \<subseteq> set (invoices s)" for rows
    using that
  proof (induction rows)
    case Nil
    then show ?case by simp
  next
    case (Cons i rows)
    then have "i \<in> set (invoices s)" by simp
    from one [OF this] obtain c where "concat (map (\<lambda>c.
        if invoices_row.customerId i = Customer.id c then [g i c] else []) (customers s)) =
        [g i c]" by blast
    with Cons id show ?case by simp
  qed
  then show ?thesis by (simp add: join)
qed

lemma invoices_join_rows:
  assumes "r \<in> set (invoices_join s)"
  shows "\<exists>i \<in> set (invoices s). \<exists>c \<in> set (customers s).
     Customer.id c = invoices_row.customerId i \<and> Invoice.id r = invoices_row.id i \<and>
     Invoice.customerId r = invoices_row.customerId i \<and>
     Invoice.createdAt r = invoices_row.createdAt i \<and>
     Invoice.totalAmount r = invoices_row.totalAmount i \<and>
     customerName r = Customer.name c"
proof -
  from assms obtain i c where ic: "i \<in> set (invoices s)" "c \<in> set (customers s)"
    "invoices_row.customerId i = Customer.id c"
    and r: "r = \<lparr>Invoice.id = invoices_row.id i, Invoice.customerId = invoices_row.customerId i,
      Invoice.createdAt = invoices_row.createdAt i,
      Invoice.totalAmount = invoices_row.totalAmount i,
      customerName = Customer.name c, items = []\<rparr>"
    by (auto simp: invoices_join_def split: if_splits)
  show ?thesis
  proof (intro bexI [of _ i] bexI [of _ c])
    show "Customer.id c = invoices_row.customerId i \<and> Invoice.id r = invoices_row.id i \<and>
     Invoice.customerId r = invoices_row.customerId i \<and>
     Invoice.createdAt r = invoices_row.createdAt i \<and>
     Invoice.totalAmount r = invoices_row.totalAmount i \<and>
     customerName r = Customer.name c"
      using ic(3) r by simp
  qed (rule ic(2), rule ic(1))
qed

lemma useInvoicesLoader_rows:
  "r \<in> set (useInvoicesLoader s) \<Longrightarrow>
   \<exists>j \<in> set (invoices_join s). Invoice.id r = Invoice.id j \<and>
     Invoice.customerId r = Invoice.customerId j \<and> Invoice.createdAt r = Invoice.createdAt j \<and>
     Invoice.totalAmount r = Invoice.totalAmount j \<and> customerName r = customerName j \<and>
     items r = itemsStmt_all s (Invoice.id j)"
  by (auto simp: useInvoicesLoader_def)

lemma useInvoicesLoader_createdAt:
  "map Invoice.createdAt (useInvoicesLoader s) =
     rev (map Invoice.createdAt (sort_key Invoice.createdAt (rev (invoices_join s))))"
  by (simp add: useInvoicesLoader_def rev_map comp_def)

lemma useInvoicesLoader_ids:
  "mset (map Invoice.id (useInvoicesLoader s)) = mset (map Invoice.id (invoices_join s))"
proof -
  have "map Invoice.id (useInvoicesLoader s) =
      map Invoice.id (rev (sort_key Invoice.createdAt (rev (invoices_join s))))"
    by (simp add: useInvoicesLoader_def comp_def)
  then show ?thesis by simp
qed

lemma itemsStmt_all_concat:
  "itemsStmt_all s i =
     concat (map (\<lambda>ii. concat (map (\<lambda>p.
       if productId ii = Product.id p \<and> invoiceId ii = i
       then [\<lparr>history_item.name = Product.name p,
              history_item.description = Product.description p,
              history_item.quantity = invoice_items_row.quantity ii,
              history_item.price = priceAtSale ii, history_item.tax = taxAtSale ii\<rparr>]
       else []) (products s))) (invoice_items s))"
  unfolding itemsStmt_all_def
  by (rule arg_cong [where f = concat], rule map_cong [OF refl],
      rule arg_cong [where f = concat], rule map_cong [OF refl]) simp

lemma itemsStmt_all_rows:
  assumes "r \<in> set (itemsStmt_all s i)"
  shows "\<exists>ii \<in> set (invoice_items s). \<exists>p \<in> set (products s).
     invoiceId ii = i \<and> productId ii = Product.id p \<and>
     history_item.quantity r = invoice_items_row.quantity ii \<and>
     history_item.price r = priceAtSale ii \<and> history_item.tax r = taxAtSale ii \<and>
     history_item.name r = Product.name p \<and>
     history_item.description r = Product.description p"
proof -
  from assms obtain ii p where ip: "ii \<in> set (invoice_items s)" "p \<in> set (products s)"
    "productId ii = Product.id p" "invoiceId ii = i"
    and r: "r = \<lparr>history_item.name = Product.name p,
              history_item.description = Product.description p,
              history_item.quantity = invoice_items_row.quantity ii,
              history_item.price = priceAtSale ii, history_item.tax = taxAtSale ii\<rparr>"
    by (auto simp: itemsStmt_all_concat split: if_splits)
  show ?thesis
  proof (intro bexI [of _ ii] bexI [of _ p])
    show "invoiceId ii = i \<and> productId ii = Product.id p \<and>
     history_item.quantity r = invoice_items_row.quantity ii \<and>
     history_item.price r = priceAtSale ii \<and> history_item.tax r = taxAtSale ii \<and>
     history_item.name r = Product.name p \<and>
     history_item.description r = Product.description p"
      using ip(3,4) r by simp
  qed (rule ip(2), rule ip(1))
qed

lemma map_concat_if:
  "map h (concat (map (\<lambda>p. if c p then [g p] else []) ps)) =
     concat (map (\<lambda>p. if c p then [h (g p)] else []) ps)"
  by (induction ps) simp_all

lemma map_concat_concat_if:
  "map h (concat (map (\<lambda>ii. concat (map (\<lambda>p. if c ii p then [g ii p] else []) ps)) rows)) =
     concat (map (\<lambda>ii. concat (map (\<lambda>p. if c ii p then [h (g ii p)] else []) ps)) rows)"
  by (induction rows) (simp_all add: map_concat_if)

lemma itemsStmt_all_snapshot:
  assumes "\<And>p. Product.id (f p) = Product.id p"
  shows "map snapshot (itemsStmt_all (s\<lparr>products := map f (products s)\<rparr>) i) =
         map snapshot (itemsStmt_all s i)"
  by (simp add: itemsStmt_all_concat map_concat_concat_if comp_def snapshot_def assms
      cong: if_cong)

lemma concat_map_filter_irrelevant:
  "(\<And>x. x \<in> set xs \<Longrightarrow> \<not> P x \<Longrightarrow> F x = []) \<Longrightarrow>
   concat (map F (filter P xs)) = concat (map F xs)"
  by (induction xs) simp_all

lemma no_product_no_row:
  assumes "productId ii \<notin> set (map Product.id (products s))"
  shows "concat (map (\<lambda>p. if productId ii = Product.id p \<and> invoiceId ii = i
       then [g p] else []) (products s)) = []"
  using assms by auto

lemma itemsStmt_all_omits:
  "itemsStmt_all (s\<lparr>invoice_items :=
       filter (\<lambda>ii. productId ii \<in> set (map Product.id (products s))) (invoice_items s)\<rparr>) i =
   itemsStmt_all s i"
proof -
  let ?kept = "filter (\<lambda>ii. productId ii \<in> set (map Product.id (products s))) (invoice_items s)"
  have sel: "products (s\<lparr>invoice_items := ?kept\<rparr>) = products s"
    "invoice_items (s\<lparr>invoice_items := ?kept\<rparr>) = ?kept"
    by simp_all
  show ?thesis
    unfolding itemsStmt_all_concat sel
    by (rule concat_map_filter_irrelevant, rule no_product_no_row)
qed

lemma present_product_one_row:
  assumes "distinct (map Product.id (products s))"
    and "productId ii \<in> set (map Product.id (products s))"
  shows "length (concat (map (\<lambda>p. if productId ii = Product.id p \<and> invoiceId ii = i
       then [g p] else []) (products s))) = (if invoiceId ii = i then 1 else 0)"
proof (cases "invoiceId ii = i")
  case True
  from single_match [OF assms, of g] True show ?thesis by auto
next
  case False
  then show ?thesis by simp
qed

lemma itemsStmt_all_length:
  assumes "distinct (map Product.id (products s))"
  shows "length (itemsStmt_all s i) =
     length (filter (\<lambda>ii. productId ii \<in> set (map Product.id (products s))) (lines_of s i))"
proof -
  define F :: "invoice_items_row \<Rightarrow> history_item list" where
    "F = (\<lambda>ii. concat (map (\<lambda>p.
       if productId ii = Product.id p \<and> invoiceId ii = i
       then [\<lparr>history_item.name = Product.name p,
              history_item.description = Product.description p,
              history_item.quantity = invoice_items_row.quantity ii,
              history_item.price = priceAtSale ii, history_item.tax = taxAtSale ii\<rparr>]
       else []) (products s)))"
  have one: "length (F ii) =
      (if productId ii \<in> set (map Product.id (products s)) \<and> invoiceId ii = i then 1 else 0)"
    for ii
  proof (cases "productId ii \<in> set (map Product.id (products s))")
    case True
    have "length (F ii) = (if invoiceId ii = i then 1 else 0)"
      unfolding F_def by (rule present_product_one_row [OF assms True])
    with True show ?thesis by simp
  next
    case False
    have "F ii = []"
      unfolding F_def by (rule no_product_no_row [OF False])
    with False show ?thesis by simp
  qed
  have "length (concat (map F rows)) =
     length (filter (\<lambda>ii. productId ii \<in> set (map Product.id (products s)))
       (filter (\<lambda>ii. invoiceId ii = i) rows))" for rows
  proof (induction rows)
    case Nil
    then show ?case by simp
  next
    case (Cons ii rows)
    have "length (concat (map F (ii # rows))) = length (F ii) + length (concat (map F rows))"
      by simp
    also have "\<dots> = (if productId ii \<in> set (map Product.id (products s)) \<and> invoiceId ii = i
        then 1 else 0) +
      length (filter (\<lambda>ii. productId ii \<in> set (map Product.id (products s)))
        (filter (\<lambda>ii. invoiceId ii = i) rows))"
      by (simp only: one Cons.IH)
    also have "\<dots> = length (filter (\<lambda>ii. productId ii \<in> set (map Product.id (products s)))
        (filter (\<lambda>ii. invoiceId ii = i) (ii # rows)))"
      by simp
    finally show ?case .
  qed
  from this [of "invoice_items s"] show ?thesis
    unfolding itemsStmt_all_concat lines_of_def F_def .
qed

subsection \<open>Keys in the databases the commands build\<close>

lemma useAddCustomerAction_effect:
  "snd (useAddCustomerAction is_email data s) = s \<or>
   (\<exists>c. snd (useAddCustomerAction is_email data s) =
          s\<lparr>customers := customers s @ [c], seq_customers := Customer.id c\<rparr> \<and>
        Customer.id c \<notin> set (map Customer.id (customers s)))"
proof (cases "fst (useAddCustomerAction is_email data s) = Returned ()")
  case False
  then show ?thesis
    by (auto simp: useAddCustomerAction_def insert_customers_def Let_def
        split: option.splits if_splits)
next
  case True
  then obtain n p where
    "snd (useAddCustomerAction is_email data s) =
       s\<lparr>customers := customers s @
            [\<lparr>Customer.id = fresh_rowid (seq_customers s) (map Customer.id (customers s)),
              Customer.name = n, Customer.phone = p,
              Customer.email = AddCustomerData.email data,
              Customer.address = AddCustomerData.address data\<rparr>],
          seq_customers := fresh_rowid (seq_customers s) (map Customer.id (customers s))\<rparr>"
    by (auto simp: useAddCustomerAction_def insert_customers_def Let_def
        split: option.splits if_splits)
  moreover have "fresh_rowid (seq_customers s) (map Customer.id (customers s))
      \<notin> set (map Customer.id (customers s))"
    by (rule fresh_rowid_notin)
  ultimately show ?thesis
    by (intro disjI2 exI [of _ "\<lparr>Customer.id =
          fresh_rowid (seq_customers s) (map Customer.id (customers s)),
        Customer.name = n, Customer.phone = p, Customer.email = AddCustomerData.email data,
        Customer.address = AddCustomerData.address data\<rparr>"]) simp
qed

lemma useAddProductAction_effect:
  "snd (useAddProductAction data s) = s \<or>
   (\<exists>p. snd (useAddProductAction data s) =
          s\<lparr>products := products s @ [p], seq_products := Product.id p\<rparr> \<and>
        Product.id p \<notin> set (map Product.id (products s)))"
proof (cases "fst (useAddProductAction data s) = Returned ()")
  case False
  then show ?thesis
    by (auto simp: useAddProductAction_def insert_products_def Let_def
        split: option.splits if_splits)
next
  case True
  then obtain n p t where
    "snd (useAddProductAction data s) =
       s\<lparr>products := products s @
            [\<lparr>Product.id = fresh_rowid (seq_products s) (map Product.id (products s)),
              Product.name = n, Product.description = AddProductData.description data,
              Product.price = p, Product.tax = t\<rparr>],
          seq_products := fresh_rowid (seq_products s) (map Product.id (products s))\<rparr>"
    by (auto simp: useAddProductAction_def insert_products_def Let_def
        split: option.splits if_splits)
  moreover have "fresh_rowid (seq_products s) (map Product.id (products s))
      \<notin> set (map Product.id (products s))"
    by (rule fresh_rowid_notin)
  ultimately show ?thesis
    by (intro disjI2 exI [of _ "\<lparr>Product.id =
          fresh_rowid (seq_products s) (map Product.id (products s)),
        Product.name = n, Product.description = AddProductData.description data,
        Product.price = p, Product.tax = t\<rparr>"]) simp
qed

lemma itemStmt_loop_products:
  "itemStmt_loop i its s = (Inr u, s') \<Longrightarrow>
   \<forall>item \<in> set its. Product.id item \<in> set (map Product.id (products s))"
proof (induction its arbitrary: s)
  case Nil
  then show ?case by simp
next
  case (Cons item rest)
  from Cons.prems obtain v s1 where
    first: "itemStmt_run i (Product.id item) (InvoiceItem.quantity item)
             (Product.price item) (Product.tax item) s = (Inr v, s1)"
    and rest: "itemStmt_loop i rest s1 = (Inr u, s')"
    by (auto split: prod.splits sum.splits)
  from Cons.IH [OF rest] itemStmt_run_Inr(2,9) [OF first] show ?case by simp
qed

lemma invoice_body_refs:
  assumes "invoice_body cid now amount its s = (Inr u, s')"
  shows "cid \<in> set (map Customer.id (customers s))"
    and "\<forall>item \<in> set its. Product.id item \<in> set (map Product.id (products s))"
proof -
  from assms obtain v s1 where
    hdr: "invoiceStmt_run cid now amount s = (Inr v, s1)"
    and loop: "itemStmt_loop v its s1 = (Inr u, s')"
    by (auto simp: invoice_body_def split: prod.splits sum.splits)
  from invoiceStmt_run_Inr(6) [OF hdr]
  show "cid \<in> set (map Customer.id (customers s))" .
  from itemStmt_loop_products [OF loop] invoiceStmt_run_Inr(2) [OF hdr]
  show "\<forall>item \<in> set its. Product.id item \<in> set (map Product.id (products s))" by simp
qed

lemma rows_productId:
  "list_all2 (row_of_item i) rows its \<Longrightarrow> \<forall>item \<in> set its. Product.id item \<in> A \<Longrightarrow>
   \<forall>r \<in> set rows. productId r \<in> A"
  by (induction rows its rule: list_all2_induct) (simp_all add: row_of_item_def)

lemma exec_customer_product_keys:
  assumes "customer_keys_ok s \<and> product_keys_ok s"
  shows "customer_keys_ok (exec is_email JSON_parse s c) \<and>
         product_keys_ok (exec is_email JSON_parse s c)"
proof (cases c)
  case (AddCustomer data)
  from useAddCustomerAction_effect [of is_email data s] assms AddCustomer show ?thesis
    by (auto simp: customer_keys_ok_def product_keys_ok_def)
next
  case (AddProduct data)
  from useAddProductAction_effect [of data s] assms AddProduct show ?thesis
    by (auto simp: customer_keys_ok_def product_keys_ok_def)
next
  case (CreateInvoice now data)
  obtain out logged s' where
    run: "useCreateInvoiceAction JSON_parse now data s = ((out, logged), s')"
    by (metis surj_pair)
  show ?thesis
  proof (cases "s' = s")
    case True
    with run assms CreateInvoice show ?thesis by simp
  next
    case False
    with useCreateInvoiceAction_cases [OF run] obtain cid its where
      body: "invoice_body cid now (computeTotalAmount its) its s = (Inr (), s')"
      by auto
    from invoice_body_Inr [OF body] obtain rows where
      same: "customers s' = customers s" "products s' = products s"
      and inv: "invoices s' = invoices s @ [new_invoice s cid now (computeTotalAmount its)]"
      and items: "invoice_items s' = invoice_items s @ rows"
      and rows: "list_all2 (row_of_item
          (invoices_row.id (new_invoice s cid now (computeTotalAmount its)))) rows its"
      by blast
    note refs = invoice_body_refs [OF body]
    have c: "customer_keys_ok s'"
      using assms same inv refs(1) by (auto simp: customer_keys_ok_def new_invoice_def)
    have "\<forall>r \<in> set rows. productId r \<in> set (map Product.id (products s))"
      using rows_productId [OF rows refs(2)] .
    then have p: "product_keys_ok s'"
      using assms same items by (auto simp: product_keys_ok_def)
    from c p run CreateInvoice show ?thesis by simp
  qed
qed

lemma run_keys:
  "keys_ok (run is_email JSON_parse cmds) \<and> customer_keys_ok (run is_email JSON_parse cmds) \<and>
   product_keys_ok (run is_email JSON_parse cmds)"
proof -
  have "customer_keys_ok (foldl (exec is_email JSON_parse) s cmds) \<and>
        product_keys_ok (foldl (exec is_email JSON_parse) s cmds)"
    if "customer_keys_ok s \<and> product_keys_ok s" for s
    using that
  proof (induction cmds arbitrary: s)
    case Nil
    then show ?case by simp
  next
    case (Cons c cmds)
    from Cons.IH [OF exec_customer_product_keys [OF Cons.prems]] show ?case by simp
  qed
  moreover have "customer_keys_ok initDb \<and> product_keys_ok initDb"
    by (simp add: customer_keys_ok_def product_keys_ok_def initDb_def)
  ultimately show ?thesis
    using foldl_exec_ok [OF initDb_ok, of is_email JSON_parse cmds] by (simp add: run_def)
qed

lemma run_lists_every_invoice_and_item:
  "mset (map Invoice.id (useInvoicesLoader (run is_email JSON_parse cmds))) =
     mset (map invoices_row.id (invoices (run is_email JSON_parse cmds))) \<and>
   length (itemsStmt_all (run is_email JSON_parse cmds) i) =
     length (lines_of (run is_email JSON_parse cmds) i)"
proof -
  let ?s = "run is_email JSON_parse cmds"
  from run_keys [of is_email JSON_parse cmds]
  have c: "customer_keys_ok ?s" and p: "product_keys_ok ?s" by simp_all
  from c have "mset (map Invoice.id (useInvoicesLoader ?s)) =
     mset (map invoices_row.id (invoices ?s))"
    using useInvoicesLoader_ids [of ?s] invoices_join_ids [of ?s] by simp
  moreover from p have "filter (\<lambda>ii. productId ii \<in> set (map Product.id (products ?s)))
      (lines_of ?s i) = lines_of ?s i"
    unfolding filter_id_conv lines_of_def by (auto simp: product_keys_ok_def)
  with p have "length (itemsStmt_all ?s i) = length (lines_of ?s i)"
    using itemsStmt_all_length [of ?s i] by (simp add: product_keys_ok_def)
  ultimately show ?thesis by simp
qed

subsection \<open>The sample data, evaluated\<close>

lemma spec_example_totals:
  "subtotal spec_items = 250 \<and> totalTax spec_items = 20 \<and> previewTotal spec_items = 270 \<and>
   computeTotalAmount spec_items = 270"
  by (simp add: subtotal_def totalTax_def previewTotal_def computeTotalAmount_def
      spec_items_def line_def)

lemma shop_eval:
  "shop = \<lparr>customers = [\<lparr>Customer.id = 1, Customer.name = ''Ann'', Customer.phone = ''555'',
              Customer.email = None, Customer.address = None\<rparr>],
           products = [\<lparr>Product.id = 1, Product.name = ''Widget'', Product.description = None,
              Product.price = 100, Product.tax = 10\<rparr>,
             \<lparr>Product.id = 2, Product.name = ''Gadget'', Product.description = None,
              Product.price = 50, Product.tax = 0\<rparr>],
           invoices = [], invoice_items = [],
           seq_customers = 1, seq_products = 2, seq_invoices = 0, seq_invoice_items = 0\<rparr>"
  by (simp add: shop_def run_def initDb_def useAddCustomerAction_def useAddProductAction_def
      insert_customers_def insert_products_def fresh_rowid_def ann_def widget_def gadget_def
      Let_def)

lemma sample_parse_empty: "sample_JSON_parse ''[]'' = Some []"
  by (simp add: sample_JSON_parse_def)

lemma sample_parse_spec: "sample_JSON_parse spec_json = Some spec_items"
  by (simp add: sample_JSON_parse_def spec_json_def)

lemma sample_parse_ghost: "sample_JSON_parse ghost_json = Some ghost_items"
  by (simp add: sample_JSON_parse_def ghost_json_def spec_json_def)

lemma sample_parse_returned: "sample_JSON_parse returned_json = Some returned_items"
  by (simp add: sample_JSON_parse_def ghost_json_def spec_json_def returned_json_def)

lemma spec_json_length: "1 \<le> length spec_json"
  by (simp add: spec_json_def)

lemma returned_json_length: "1 \<le> length returned_json"
  by (simp add: returned_json_def)

lemma invoice_body_spec:
  "invoice_body 1 now (computeTotalAmount spec_items) spec_items shop =
     (Inr (),
      shop\<lparr>invoices := [new_invoice shop 1 now 270],
           invoice_items := [\<lparr>invoice_items_row.id = 1, invoiceId = 1, productId = 1,
              invoice_items_row.quantity = 2, priceAtSale = 100, taxAtSale = 10\<rparr>,
             \<lparr>invoice_items_row.id = 2, invoiceId = 1, productId = 2,
              invoice_items_row.quantity = 1, priceAtSale = 50, taxAtSale = 0\<rparr>],
           seq_invoices := 1, seq_invoice_items := 2\<rparr>)"
  by (simp add: shop_eval invoice_body_def invoiceStmt_run_def itemStmt_run_def
      fresh_rowid_def spec_items_def line_def computeTotalAmount_def new_invoice_def Let_def)

lemma invoice_body_ghost:
  "invoice_body 1 now (computeTotalAmount ghost_items) ghost_items shop =
     (Inl (SqliteError SQLITE_CONSTRAINT_FOREIGNKEY),
      shop\<lparr>invoices := [new_invoice shop 1 now 225],
           invoice_items := [\<lparr>invoice_items_row.id = 1, invoiceId = 1, productId = 1,
              invoice_items_row.quantity = 2, priceAtSale = 100, taxAtSale = 10\<rparr>],
           seq_invoices := 1, seq_invoice_items := 1\<rparr>)"
  by (simp add: shop_eval invoice_body_def invoiceStmt_run_def itemStmt_run_def
      fresh_rowid_def ghost_items_def line_def computeTotalAmount_def new_invoice_def Let_def)

lemma invoice_body_returned:
  "invoice_body 1 now (computeTotalAmount returned_items) returned_items shop =
     (Inr (),
      shop\<lparr>invoices := [new_invoice shop 1 now (- 330)],
           invoice_items := [\<lparr>invoice_items_row.id = 1, invoiceId = 1, productId = 1,
              invoice_items_row.quantity = - 3, priceAtSale = 100, taxAtSale = 10\<rparr>],
           seq_invoices := 1, seq_invoice_items := 1\<rparr>)"
  by (simp add: shop_eval invoice_body_def invoiceStmt_run_def itemStmt_run_def
      fresh_rowid_def returned_items_def line_def computeTotalAmount_def new_invoice_def Let_def)

lemma create_spec_invoice:
  "useCreateInvoiceAction sample_JSON_parse now (submit 1 spec_json) shop =
     ((Returned ok_result, []),
      shop\<lparr>invoices := [new_invoice shop 1 now 270],
           invoice_items := [\<lparr>invoice_items_row.id = 1, invoiceId = 1, productId = 1,
              invoice_items_row.quantity = 2, priceAtSale = 100, taxAtSale = 10\<rparr>,
             \<lparr>invoice_items_row.id = 2, invoiceId = 1, productId = 2,
              invoice_items_row.quantity = 1, priceAtSale = 50, taxAtSale = 0\<rparr>],
           seq_invoices := 1, seq_invoice_items := 2\<rparr>)"
  using spec_json_length
  by (simp add: useCreateInvoiceAction_def submit_def sample_parse_spec transaction_def
      invoice_body_spec ok_result_def)

lemma create_ghost_invoice:
  "useCreateInvoiceAction sample_JSON_parse now (submit 1 ghost_json) shop =
     ((Returned failed_result, [SqliteError SQLITE_CONSTRAINT_FOREIGNKEY]), shop)"
proof -
  have "1 \<le> length ghost_json" by (simp add: ghost_json_def)
  then show ?thesis
    by (simp add: useCreateInvoiceAction_def submit_def sample_parse_ghost transaction_def
        invoice_body_ghost failed_result_def)
qed

lemma create_returned_invoice:
  "useCreateInvoiceAction sample_JSON_parse now (submit 1 returned_json) shop =
     ((Returned ok_result, []),
      shop\<lparr>invoices := [new_invoice shop 1 now (- 330)],
           invoice_items := [\<lparr>invoice_items_row.id = 1, invoiceId = 1, productId = 1,
              invoice_items_row.quantity = - 3, priceAtSale = 100, taxAtSale = 10\<rparr>],
           seq_invoices := 1, seq_invoice_items := 1\<rparr>)"
  using returned_json_length
  by (simp add: useCreateInvoiceAction_def submit_def sample_parse_returned transaction_def
      invoice_body_returned ok_result_def)

lemma create_empty_invoice:
  "useCreateInvoiceAction sample_JSON_parse now (submit 1 ''[]'') shop =
     ((Returned ok_result, []),
      shop\<lparr>invoices := [new_invoice shop 1 now 0], seq_invoices := 1\<rparr>)"
  by (simp add: useCreateInvoiceAction_def submit_def sample_parse_empty transaction_def
      invoice_body_def invoiceStmt_run_def shop_eval fresh_rowid_def new_invoice_def
      computeTotalAmount_def ok_result_def Let_def)

lemma spec_run_eval:
  "run sample_is_email sample_JSON_parse spec_run =
     shop\<lparr>invoices := [new_invoice shop 1 ''2024-05-01T10:00:00.000Z'' 270],
           invoice_items := [\<lparr>invoice_items_row.id = 1, invoiceId = 1, productId = 1,
              invoice_items_row.quantity = 2, priceAtSale = 100, taxAtSale = 10\<rparr>,
             \<lparr>invoice_items_row.id = 2, invoiceId = 1, productId = 2,
              invoice_items_row.quantity = 1, priceAtSale = 50, taxAtSale = 0\<rparr>],
           seq_invoices := 1, seq_invoice_items := 2\<rparr>"
proof -
  have "run sample_is_email sample_JSON_parse spec_run =
      snd (useCreateInvoiceAction sample_JSON_parse ''2024-05-01T10:00:00.000Z''
        (submit 1 spec_json) shop)"
    by (simp add: run_def spec_run_def shop_def)
  then show ?thesis by (simp add: create_spec_invoice)
qed

lemma create_second_invoice:
  "useCreateInvoiceAction sample_JSON_parse now (submit 1 spec_json)
       (run sample_is_email sample_JSON_parse spec_run) =
     ((Returned ok_result, []),
      shop\<lparr>invoices := [new_invoice shop 1 ''2024-05-01T10:00:00.000Z'' 270,
              \<lparr>invoices_row.id = 2, invoices_row.customerId = 1,
               invoices_row.createdAt = now, invoices_row.totalAmount = 270\<rparr>],
           invoice_items := [\<lparr>invoice_items_row.id = 1, invoiceId = 1, productId = 1,
              invoice_items_row.quantity = 2, priceAtSale = 100, taxAtSale = 10\<rparr>,
             \<lparr>invoice_items_row.id = 2, invoiceId = 1, productId = 2,
              invoice_items_row.quantity = 1, priceAtSale = 50, taxAtSale = 0\<rparr>,
             \<lparr>invoice_items_row.id = 3, invoiceId = 2, productId = 1,
              invoice_items_row.quantity = 2, priceAtSale = 100, taxAtSale = 10\<rparr>,
             \<lparr>invoice_items_row.id = 4, invoiceId = 2, productId = 2,
              invoice_items_row.quantity = 1, priceAtSale = 50, taxAtSale = 0\<rparr>],
           seq_invoices := 2, seq_invoice_items := 4\<rparr>)"
proof -
  have body: "invoice_body 1 now (computeTotalAmount spec_items) spec_items
       (run sample_is_email sample_JSON_parse spec_run) =
     (Inr (),
      shop\<lparr>invoices := [new_invoice shop 1 ''2024-05-01T10:00:00.000Z'' 270,
              \<lparr>invoices_row.id = 2, invoices_row.customerId = 1,
               invoices_row.createdAt = now, invoices_row.totalAmount = 270\<rparr>],
           invoice_items := [\<lparr>invoice_items_row.id = 1, invoiceId = 1, productId = 1,
              invoice_items_row.quantity = 2, priceAtSale = 100, taxAtSale = 10\<rparr>,
             \<lparr>invoice_items_row.id = 2, invoiceId = 1, productId = 2,
              invoice_items_row.quantity = 1, priceAtSale = 50, taxAtSale = 0\<rparr>,
             \<lparr>invoice_items_row.id = 3, invoiceId = 2, productId = 1,
              invoice_items_row.quantity = 2, priceAtSale = 100, taxAtSale = 10\<rparr>,
             \<lparr>invoice_items_row.id = 4, invoiceId = 2, productId = 2,
              invoice_items_row.quantity = 1, priceAtSale = 50, taxAtSale = 0\<rparr>],
           seq_invoices := 2, seq_invoice_items := 4\<rparr>)"
    unfolding spec_run_eval
    by (simp add: shop_eval invoice_body_def invoiceStmt_run_def itemStmt_run_def
      fresh_rowid_def spec_items_def line_def computeTotalAmount_def new_invoice_def Let_def)
  show ?thesis
    using spec_json_length
    by (simp add: useCreateInvoiceAction_def submit_def sample_parse_spec transaction_def
        body ok_result_def)
qed

lemma busy_eval:
  "busy = \<lparr>customers =
       [\<lparr>Customer.id = 1, Customer.name = ''Zed'', Customer.phone = ''777'',
         Customer.email = Some ''zed@example.org'', Customer.address = None\<rparr>,
        \<lparr>Customer.id = 2, Customer.name = ''Ann'', Customer.phone = ''555'',
         Customer.email = None, Customer.address = None\<rparr>],
     products =
       [\<lparr>Product.id = 1, Product.name = ''Widget'', Product.description = None,
         Product.price = 100, Product.tax = 10\<rparr>,
        \<lparr>Product.id = 2, Product.name = ''Gadget'', Product.description = None,
         Product.price = 50, Product.tax = 0\<rparr>],
     invoices =
       [\<lparr>invoices_row.id = 1, invoices_row.customerId = 2,
         invoices_row.createdAt = ''2024-05-01T10:00:00.000Z'', invoices_row.totalAmount = 270\<rparr>,
        \<lparr>invoices_row.id = 2, invoices_row.customerId = 1,
         invoices_row.createdAt = ''2024-05-02T09:00:00.000Z'', invoices_row.totalAmount = 270\<rparr>],
     invoice_items =
       [\<lparr>invoice_items_row.id = 1, invoiceId = 1, productId = 1,
         invoice_items_row.quantity = 2, priceAtSale = 100, taxAtSale = 10\<rparr>,
        \<lparr>invoice_items_row.id = 2, invoiceId = 1, productId = 2,
         invoice_items_row.quantity = 1, priceAtSale = 50, taxAtSale = 0\<rparr>,
        \<lparr>invoice_items_row.id = 3, invoiceId = 2, productId = 1,
         invoice_items_row.quantity = 2, priceAtSale = 100, taxAtSale = 10\<rparr>,
        \<lparr>invoice_items_row.id = 4, invoiceId = 2, productId = 2,
         invoice_items_row.quantity = 1, priceAtSale = 50, taxAtSale = 0\<rparr>],
     seq_customers = 2, seq_products = 2, seq_invoices = 2, seq_invoice_items = 4\<rparr>"
proof -
  have len: "1 \<le> length spec_json" by (rule spec_json_length)
  have em: "sample_is_email ''zed@example.org''" by (simp add: sample_is_email_def)
  show ?thesis
    unfolding busy_def busy_run_def run_def
    using len em
    by (simp add: initDb_def useAddCustomerAction_def useAddProductAction_def
        insert_customers_def insert_products_def fresh_rowid_def ann_def zed_def widget_def
        gadget_def useCreateInvoiceAction_def submit_def sample_parse_spec transaction_def
        invoice_body_def invoiceStmt_run_def itemStmt_run_def computeTotalAmount_def
        spec_items_def line_def Let_def)
qed

text \<open>The stationer's invoice, with the arithmetic of the action in double precision.\<close>

lemmas double_eval =
  double_of_def round53.simps round_half_even_def Let_def dadd_def dmul_def ddiv_def

lemma double_of_1_9: "double_of (19 / 10) = 8556839292003942 / 2 ^ 52"
  by (simp add: double_eval)

lemma stationer_eval:
  "stationer = \<lparr>customers = [\<lparr>Customer.id = 1, Customer.name = ''Ann'', Customer.phone = ''555'',
              Customer.email = None, Customer.address = None\<rparr>],
           products = [\<lparr>Product.id = 1, Product.name = ''Pen'', Product.description = None,
              Product.price = 1, Product.tax = 5\<rparr>,
             \<lparr>Product.id = 2, Product.name = ''Ink'', Product.description = None,
              Product.price = 8556839292003942 / 2 ^ 52, Product.tax = 5\<rparr>],
           invoices = [], invoice_items = [],
           seq_customers = 1, seq_products = 2, seq_invoices = 0, seq_invoice_items = 0\<rparr>"
proof -
  have "0 \<le> double_of (19 / 10)" by (simp add: double_of_1_9)
  then show ?thesis
    by (simp add: stationer_def run_def initDb_def useAddCustomerAction_def
        useAddProductAction_def insert_customers_def insert_products_def fresh_rowid_def
        ann_def pen_def ink_def Let_def double_of_1_9)
qed

lemma stationery_total: "computeTotalAmount_double stationery_items = 6856730432671581 / 2 ^ 51"
  by (simp add: computeTotalAmount_double_def stationery_items_def line_def double_eval)





lemma stationery_parse: "stationery_JSON_parse stationery_json = Some stationery_items"
  by (simp add: stationery_JSON_parse_def)

lemma stationery_json_length: "1 \<le> length stationery_json"
  by (simp add: stationery_json_def)

lemma invoice_body_stationery:
  "invoice_body 1 now amount stationery_items stationer =
     (Inr (),
      stationer\<lparr>invoices := [\<lparr>invoices_row.id = 1, invoices_row.customerId = 1,
              invoices_row.createdAt = now, invoices_row.totalAmount = amount\<rparr>],
           invoice_items := [\<lparr>invoice_items_row.id = 1, invoiceId = 1, productId = 1,
              invoice_items_row.quantity = 1, priceAtSale = 1, taxAtSale = 5\<rparr>,
             \<lparr>invoice_items_row.id = 2, invoiceId = 1, productId = 2,
              invoice_items_row.quantity = 1, priceAtSale = 8556839292003942 / 2 ^ 52,
              taxAtSale = 5\<rparr>],
           seq_invoices := 1, seq_invoice_items := 2\<rparr>)"
  by (simp add: stationer_eval invoice_body_def invoiceStmt_run_def itemStmt_run_def
      fresh_rowid_def stationery_items_def line_def double_of_1_9 Let_def)

lemma create_stationery_invoice:
  "useCreateInvoiceAction_double stationery_JSON_parse now (submit 1 stationery_json) stationer =
     ((Returned \<lparr>success = True, error = None\<rparr>, []),
      stationer\<lparr>invoices := [\<lparr>invoices_row.id = 1, invoices_row.customerId = 1,
              invoices_row.createdAt = now,
              invoices_row.totalAmount = computeTotalAmount_double stationery_items\<rparr>],
           invoice_items := [\<lparr>invoice_items_row.id = 1, invoiceId = 1, productId = 1,
              invoice_items_row.quantity = 1, priceAtSale = 1, taxAtSale = 5\<rparr>,
             \<lparr>invoice_items_row.id = 2, invoiceId = 1, productId = 2,
              invoice_items_row.quantity = 1, priceAtSale = 8556839292003942 / 2 ^ 52,
              taxAtSale = 5\<rparr>],
           seq_invoices := 1, seq_invoice_items := 2\<rparr>)"
  using stationery_json_length
  by (simp add: useCreateInvoiceAction_double_def submit_def stationery_parse transaction_def
      invoice_body_stationery)

text \<open>Two invoices created at the same instant are listed in rowid order.\<close>

lemma useInvoicesLoader_ties:
  "map Invoice.id (useInvoicesLoader (snd (useCreateInvoiceAction sample_JSON_parse
       ''2024-05-01T10:00:00.000Z'' (submit 1 spec_json)
       (run sample_is_email sample_JSON_parse spec_run)))) = [1, 2]"
  unfolding create_second_invoice
  by (simp add: useInvoicesLoader_def invoices_join_def new_invoice_def shop_eval
      fresh_rowid_def)

section \<open>Invoice creation is atomic\<close>

text \<open>
  C1. Invoice creation is atomic. Whatever a create-invoice request is, the action either
  answers success and the database holds exactly one new invoices row and one new
  invoice_items row for every submitted item, in order, with the other tables as they
  were; or it does not answer success and the database is the one it started from. In
  particular, when some submitted item names a product that has no row, so that its insert
  violates the foreign key after the header and the items before it were inserted, the
  action answers failure and the database is unchanged.
\<close>

theorem create_invoice_atomic:
  assumes "useCreateInvoiceAction JSON_parse now data s = ((out, logged), s')"
  shows "((out = Returned ok_result \<and>
          (\<exists>cid js its rows.
             CreateInvoiceData.customerId data = Some cid \<and> itemsJSON data = Some js \<and>
             JSON_parse js = Some its \<and>
             invoices s' = invoices s @ [new_invoice s cid now (computeTotalAmount its)] \<and>
             invoice_items s' = invoice_items s @ rows \<and>
             list_all2 (row_of_item
               (invoices_row.id (new_invoice s cid now (computeTotalAmount its)))) rows its \<and>
             customers s' = customers s \<and> products s' = products s)) \<or>
         (out \<noteq> Returned ok_result \<and> s' = s)) \<and>
        (\<forall>cid js its.
           CreateInvoiceData.customerId data = Some cid \<and> itemsJSON data = Some js \<and>
           js \<noteq> [] \<and> JSON_parse js = Some its \<and>
           (\<exists>item \<in> set its. Product.id item \<notin> set (map Product.id (products s))) \<longrightarrow>
           out = Returned failed_result \<and> s' = s)"
proof (intro conjI allI impI)
  show "(out = Returned ok_result \<and>
          (\<exists>cid js its rows.
             CreateInvoiceData.customerId data = Some cid \<and> itemsJSON data = Some js \<and>
             JSON_parse js = Some its \<and>
             invoices s' = invoices s @ [new_invoice s cid now (computeTotalAmount its)] \<and>
             invoice_items s' = invoice_items s @ rows \<and>
             list_all2 (row_of_item
               (invoices_row.id (new_invoice s cid now (computeTotalAmount its)))) rows its \<and>
             customers s' = customers s \<and> products s' = products s)) \<or>
         (out \<noteq> Returned ok_result \<and> s' = s)"
    using useCreateInvoiceAction_cases [OF assms] invoice_body_Inr
    by (auto simp: ok_result_def failed_result_def)
next
  fix cid js its
  assume h: "CreateInvoiceData.customerId data = Some cid \<and> itemsJSON data = Some js \<and>
           js \<noteq> [] \<and> JSON_parse js = Some its \<and>
           (\<exists>item \<in> set its. Product.id item \<notin> set (map Product.id (products s)))"
  have "\<not> (\<exists>u. invoice_body cid now (computeTotalAmount its) its s = (Inr u, s'))"
  proof
    assume "\<exists>u. invoice_body cid now (computeTotalAmount its) its s = (Inr u, s')"
    then obtain u v s1 where
      hdr: "invoiceStmt_run cid now (computeTotalAmount its) s = (Inr v, s1)"
      and loop: "itemStmt_loop v its s1 = (Inr u, s')"
      by (auto simp: invoice_body_def split: prod.splits sum.splits)
    from h invoiceStmt_run_Inr(2) [OF hdr]
    have "\<exists>item \<in> set its. Product.id item \<notin> set (map Product.id (products s1))" by simp
    from itemStmt_loop_missing [OF this, of v] loop show False by auto
  qed
  with useCreateInvoiceAction_cases [OF assms] h
  show "out = Returned failed_result" and "s' = s" by auto
qed

text \<open>Witness for C1: the second of two items violates the foreign key.\<close>

theorem create_invoice_atomic_witness:
  "useCreateInvoiceAction sample_JSON_parse ''2024-05-01T10:00:00.000Z'' (submit 1 ghost_json) shop =
     ((Returned failed_result, [SqliteError SQLITE_CONSTRAINT_FOREIGNKEY]), shop) \<and>
   (\<exists>item \<in> set ghost_items. Product.id item \<notin> set (map Product.id (products shop))) \<and>
   invoices shop = [] \<and> invoice_items shop = []"
proof -
  have run: "useCreateInvoiceAction sample_JSON_parse ''2024-05-01T10:00:00.000Z''
      (submit 1 ghost_json) shop =
     ((Returned failed_result, [SqliteError SQLITE_CONSTRAINT_FOREIGNKEY]), shop)"
  proof -
    have "1 \<le> length ghost_json" by (simp add: ghost_json_def)
    then show ?thesis
      by (simp add: useCreateInvoiceAction_def submit_def sample_parse_ghost transaction_def
          invoice_body_ghost failed_result_def)
  qed
  have miss: "\<exists>item \<in> set ghost_items. Product.id item \<notin> set (map Product.id (products shop))"
    by (simp add: ghost_items_def line_def shop_eval)
  have nonempty: "ghost_json \<noteq> []" by (simp add: ghost_json_def)
  from create_invoice_atomic [OF run] miss nonempty sample_parse_ghost
  have "Returned failed_result = Returned failed_result \<and> shop = shop"
    by (simp add: submit_def)
  with run miss show ?thesis by (simp add: shop_eval)
qed

section \<open>Stored totals\<close>

text \<open>
  Counterexample to C2 as stated. The stationer's customer buys one pen and one ink. In
  double precision the action stores the total 6856730432671581 / 2^51, which prints as
  3.0450000000000004, with the two lines at quantity 1, prices 1 and 1.9 and tax 5. The
  sum of quantity * priceAtSale * (1 + taxAtSale / 100) over these stored lines is
  137134608653431599 / (10 * 2^52) as an exact number and 6856730432671580 / 2^51, which
  prints as 3.045, when it is itself evaluated in double precision: neither is the stored
  total.
\<close>

theorem stored_total_rounding_counterexample:
  "fst (useCreateInvoiceAction_double stationery_JSON_parse ''2024-05-01T10:00:00.000Z''
         (submit 1 stationery_json) stationer) =
     (Returned \<lparr>success = True, error = None\<rparr>, []) \<and>
   map invoices_row.totalAmount
     (invoices (snd (useCreateInvoiceAction_double stationery_JSON_parse
        ''2024-05-01T10:00:00.000Z'' (submit 1 stationery_json) stationer))) =
     [6856730432671581 / 2 ^ 51] \<and>
   map invoiceId
     (invoice_items (snd (useCreateInvoiceAction_double stationery_JSON_parse
        ''2024-05-01T10:00:00.000Z'' (submit 1 stationery_json) stationer))) = [1, 1] \<and>
   map invoice_items_row.quantity
     (invoice_items (snd (useCreateInvoiceAction_double stationery_JSON_parse
        ''2024-05-01T10:00:00.000Z'' (submit 1 stationery_json) stationer))) = [1, 1] \<and>
   map priceAtSale
     (invoice_items (snd (useCreateInvoiceAction_double stationery_JSON_parse
        ''2024-05-01T10:00:00.000Z'' (submit 1 stationery_json) stationer))) =
     [1, 8556839292003942 / 2 ^ 52] \<and>
   map taxAtSale
     (invoice_items (snd (useCreateInvoiceAction_double stationery_JSON_parse
        ''2024-05-01T10:00:00.000Z'' (submit 1 stationery_json) stationer))) = [5, 5] \<and>
   sum_list (map line_amount
     (invoice_items (snd (useCreateInvoiceAction_double stationery_JSON_parse
        ''2024-05-01T10:00:00.000Z'' (submit 1 stationery_json) stationer)))) =
     137134608653431599 / (10 * 2 ^ 52) \<and>
   lines_amount_double
     (invoice_items (snd (useCreateInvoiceAction_double stationery_JSON_parse
        ''2024-05-01T10:00:00.000Z'' (submit 1 stationery_json) stationer))) =
     6856730432671580 / 2 ^ 51 \<and>
   \<not> totals_match (snd (useCreateInvoiceAction_double stationery_JSON_parse
        ''2024-05-01T10:00:00.000Z'' (submit 1 stationery_json) stationer))"
  unfolding create_stationery_invoice stationery_total
  by (simp add: line_amount_def lines_amount_double_def line_amount_double_def
      totals_match_def lines_of_def double_eval)

text \<open>
  C2, as amended. Floating-point rounding aside, for every invoice in the store the
  stored totalAmount equals the sum over its stored line items of
  quantity * priceAtSale * (1 + taxAtSale / 100): with exact arithmetic this holds in every
  database that a sequence of commands builds from the empty one, and every command
  preserves it, together with the key integrity of the invoice tables, from any database
  where both hold.
\<close>

theorem stored_total_invariant:
  "totals_match (run is_email JSON_parse cmds) \<and>
   (keys_ok s \<and> totals_match s \<longrightarrow>
      keys_ok (exec is_email JSON_parse s c) \<and> totals_match (exec is_email JSON_parse s c))"
  using foldl_exec_ok [OF initDb_ok] exec_ok by (simp add: run_def)

text \<open>
  Witness for C2 as amended: the example invoice, total 270 over lines worth 220 and 50,
  whose amounts are exact in double precision too.
\<close>

theorem stored_total_invariant_witness:
  "map invoices_row.totalAmount (invoices (run sample_is_email sample_JSON_parse spec_run)) = [270] \<and>
   map line_amount (invoice_items (run sample_is_email sample_JSON_parse spec_run)) = [220, 50] \<and>
   totals_match (run sample_is_email sample_JSON_parse spec_run) \<and>
   keys_ok (run sample_is_email sample_JSON_parse spec_run) \<and>
   totals_match (exec sample_is_email sample_JSON_parse
     (run sample_is_email sample_JSON_parse spec_run)
     (CreateInvoice ''2024-05-02T09:00:00.000Z'' (submit 1 spec_json))) \<and>
   map invoices_row.totalAmount (invoices (exec sample_is_email sample_JSON_parse
     (run sample_is_email sample_JSON_parse spec_run)
     (CreateInvoice ''2024-05-02T09:00:00.000Z'' (submit 1 spec_json)))) = [270, 270]"
proof -
  note inst = stored_total_invariant [of sample_is_email sample_JSON_parse spec_run
      "run sample_is_email sample_JSON_parse spec_run"
      "CreateInvoice ''2024-05-02T09:00:00.000Z'' (submit 1 spec_json)"]
  have k: "keys_ok (run sample_is_email sample_JSON_parse spec_run)"
    by (simp add: spec_run_eval keys_ok_def new_invoice_def shop_eval fresh_rowid_def)
  from inst k have "totals_match (run sample_is_email sample_JSON_parse spec_run)"
    and "totals_match (exec sample_is_email sample_JSON_parse
     (run sample_is_email sample_JSON_parse spec_run)
     (CreateInvoice ''2024-05-02T09:00:00.000Z'' (submit 1 spec_json)))"
    by simp_all
  moreover have "map invoices_row.totalAmount
      (invoices (run sample_is_email sample_JSON_parse spec_run)) = [270]"
    and "map line_amount (invoice_items (run sample_is_email sample_JSON_parse spec_run)) =
      [220, 50]"
    by (simp_all add: spec_run_eval new_invoice_def line_amount_def)
  moreover have "map invoices_row.totalAmount (invoices (exec sample_is_email sample_JSON_parse
     (run sample_is_email sample_JSON_parse spec_run)
     (CreateInvoice ''2024-05-02T09:00:00.000Z'' (submit 1 spec_json)))) = [270, 270]"
    by (simp add: create_second_invoice new_invoice_def)
  ultimately show ?thesis using k by blast
qed

section \<open>The total calculator and the preview\<close>

text \<open>
  C3. For every list of line items the preview's subtotal is the sum of price * quantity,
  its tax total is the sum of price * quantity * tax / 100, the grand total it shows is
  subtotal + tax total, and the total the create-invoice action computes equals
  subtotal + tax total of the same items. Numbers are exact reals.
\<close>

theorem total_calculator_sums:
  "subtotal its = (\<Sum>item\<leftarrow>its. Product.price item * InvoiceItem.quantity item) \<and>
   totalTax its =
     (\<Sum>item\<leftarrow>its. Product.price item * InvoiceItem.quantity item * Product.tax item / 100) \<and>
   previewTotal its = subtotal its + totalTax its \<and>
   computeTotalAmount its = subtotal its + totalTax its"
  by (simp add: subtotal_sum totalTax_sum computeTotalAmount_sum previewTotal_def sum_list_addf)



section \<open>Sign of the stored total\<close>

text \<open>
  Counterexample to C5 as stated: a submission with quantity -3 of a product priced 100
  at 10 percent tax is accepted and persisted with the total -330.
\<close>

theorem negative_total_counterexample:
  "useCreateInvoiceAction sample_JSON_parse ''2024-05-01T10:00:00.000Z''
       (submit 1 returned_json) shop =
     ((Returned \<lparr>success = True, error = None\<rparr>, []),
      shop\<lparr>invoices := [\<lparr>invoices_row.id = 1, invoices_row.customerId = 1,
              invoices_row.createdAt = ''2024-05-01T10:00:00.000Z'',
              invoices_row.totalAmount = - 330\<rparr>],
           invoice_items := [\<lparr>invoice_items_row.id = 1, invoiceId = 1, productId = 1,
              invoice_items_row.quantity = - 3, priceAtSale = 100, taxAtSale = 10\<rparr>],
           seq_invoices := 1, seq_invoice_items := 1\<rparr>)"
  unfolding create_returned_invoice
  by (simp add: ok_result_def new_invoice_def shop_eval fresh_rowid_def)

text \<open>
  C5, as amended. The total of a persisted invoice is the value the action computes from
  the submitted items (a submission has no field for a total), and every stored total is
  non-negative after any sequence of commands whose submitted items carry no negative
  price, quantity or tax. The action itself does not reject negative numbers.
\<close>

theorem total_nonneg_for_nonneg_items:
  "((\<forall>c \<in> set cmds. nonneg_command JSON_parse c) \<longrightarrow>
      totals_nonneg (run is_email JSON_parse cmds)) \<and>
   (useCreateInvoiceAction JSON_parse now data s = ((Returned ok_result, logged), s') \<longrightarrow>
      (\<exists>cid js its. CreateInvoiceData.customerId data = Some cid \<and>
         itemsJSON data = Some js \<and> JSON_parse js = Some its \<and>
         invoices s' = invoices s @ [new_invoice s cid now (computeTotalAmount its)]))"
proof (intro conjI impI)
  assume "\<forall>c \<in> set cmds. nonneg_command JSON_parse c"
  then show "totals_nonneg (run is_email JSON_parse cmds)"
    unfolding run_def
    by (intro foldl_totals_nonneg) (simp_all add: totals_nonneg_def initDb_def)
next
  assume "useCreateInvoiceAction JSON_parse now data s = ((Returned ok_result, logged), s')"
  then show "\<exists>cid js its. CreateInvoiceData.customerId data = Some cid \<and>
         itemsJSON data = Some js \<and> JSON_parse js = Some its \<and>
         invoices s' = invoices s @ [new_invoice s cid now (computeTotalAmount its)]"
    by (rule useCreateInvoiceAction_success)
qed

text \<open>
  Witness for C5 as amended: the example session submits no negative number and its
  stored total is the computed 270.
\<close>

theorem total_nonneg_for_nonneg_items_witness:
  "list_all (nonneg_command sample_JSON_parse) spec_run \<and>
   totals_nonneg (run sample_is_email sample_JSON_parse spec_run) \<and>
   useCreateInvoiceAction sample_JSON_parse ''2024-05-01T10:00:00.000Z''
       (submit 1 spec_json) shop =
     ((Returned ok_result, []), run sample_is_email sample_JSON_parse spec_run) \<and>
   invoices (run sample_is_email sample_JSON_parse spec_run) =
     invoices shop @
       [new_invoice shop 1 ''2024-05-01T10:00:00.000Z'' (computeTotalAmount spec_items)] \<and>
   computeTotalAmount spec_items = 270"
proof -
  have h: "\<forall>c \<in> set spec_run. nonneg_command sample_JSON_parse c"
    by (simp add: spec_run_def submit_def sample_parse_spec nonneg_items_def spec_items_def
        line_def)
  have c: "computeTotalAmount spec_items = 270"
    by (simp add: computeTotalAmount_def spec_items_def line_def)
  have r: "useCreateInvoiceAction sample_JSON_parse ''2024-05-01T10:00:00.000Z''
       (submit 1 spec_json) shop =
     ((Returned ok_result, []), run sample_is_email sample_JSON_parse spec_run)"
    by (simp add: create_spec_invoice spec_run_eval)
  note inst = total_nonneg_for_nonneg_items [of spec_run sample_JSON_parse sample_is_email
      "''2024-05-01T10:00:00.000Z''" "submit 1 spec_json" shop "[]"
      "run sample_is_email sample_JSON_parse spec_run"]
  from inst h have n: "totals_nonneg (run sample_is_email sample_JSON_parse spec_run)"
    by blast
  from inst r sample_parse_spec
  have i: "invoices (run sample_is_email sample_JSON_parse spec_run) =
     invoices shop @
       [new_invoice shop 1 ''2024-05-01T10:00:00.000Z'' (computeTotalAmount spec_items)]"
    by (auto simp: submit_def)
  from h n r i c show ?thesis by (simp add: list_all_iff)
qed

section \<open>Validation of a create-invoice submission\<close>

text \<open>
  Counterexample to C6 as stated: the text \<^verbatim>\<open>[]\<close> passes \<^verbatim>\<open>z.string().min(1)\<close>, and
  the action inserts an invoice with no item and total 0; a submission with quantity -3
  is accepted as well and its quantity is stored.
\<close>

theorem unvalidated_items_counterexample:
  "fst (useCreateInvoiceAction sample_JSON_parse ''2024-05-01T10:00:00.000Z''
          (submit 1 ''[]'') shop) = (Returned \<lparr>success = True, error = None\<rparr>, []) \<and>
   invoices (snd (useCreateInvoiceAction sample_JSON_parse ''2024-05-01T10:00:00.000Z''
          (submit 1 ''[]'') shop)) =
     [\<lparr>invoices_row.id = 1, invoices_row.customerId = 1,
        invoices_row.createdAt = ''2024-05-01T10:00:00.000Z'',
        invoices_row.totalAmount = 0\<rparr>] \<and>
   invoice_items (snd (useCreateInvoiceAction sample_JSON_parse ''2024-05-01T10:00:00.000Z''
          (submit 1 ''[]'') shop)) = [] \<and>
   fst (useCreateInvoiceAction sample_JSON_parse ''2024-05-01T10:00:00.000Z''
          (submit 1 returned_json) shop) = (Returned \<lparr>success = True, error = None\<rparr>, []) \<and>
   map invoice_items_row.quantity
     (invoice_items (snd (useCreateInvoiceAction sample_JSON_parse ''2024-05-01T10:00:00.000Z''
          (submit 1 returned_json) shop))) = [- 3]"
  unfolding create_returned_invoice create_empty_invoice
  by (simp add: ok_result_def new_invoice_def shop_eval fresh_rowid_def)

text \<open>
  C6, as amended. The create-invoice command rejects at validation exactly the
  submissions whose customerId is not a number or whose itemsJSON is missing or the empty
  string, and a rejected submission inserts nothing and logs nothing. Whether a
  submission is rejected does not depend on what its text parses to: an empty item list
  or a non-positive quantity is no ground for rejection.
\<close>

theorem create_invoice_validation:
  "(fst (fst (useCreateInvoiceAction JSON_parse now data s)) = Invalid \<longleftrightarrow>
      CreateInvoiceData.customerId data = None \<or> itemsJSON data = None \<or>
      itemsJSON data = Some []) \<and>
   (fst (fst (useCreateInvoiceAction JSON_parse now data s)) = Invalid \<longrightarrow>
      snd (useCreateInvoiceAction JSON_parse now data s) = s \<and>
      snd (fst (useCreateInvoiceAction JSON_parse now data s)) = []) \<and>
   (fst (fst (useCreateInvoiceAction JSON_parse now data s)) = Invalid \<longleftrightarrow>
      fst (fst (useCreateInvoiceAction JSON_parse' now' data s')) = Invalid)"
proof (intro conjI impI)
  show "fst (fst (useCreateInvoiceAction JSON_parse now data s)) = Invalid \<longleftrightarrow>
      CreateInvoiceData.customerId data = None \<or> itemsJSON data = None \<or>
      itemsJSON data = Some []"
    by (rule useCreateInvoiceAction_Invalid)
next
  assume inv: "fst (fst (useCreateInvoiceAction JSON_parse now data s)) = Invalid"
  obtain out logged s' where
    run: "useCreateInvoiceAction JSON_parse now data s = ((out, logged), s')"
    by (metis surj_pair)
  from useCreateInvoiceAction_cases [OF run] run inv
  show "snd (useCreateInvoiceAction JSON_parse now data s) = s"
    and "snd (fst (useCreateInvoiceAction JSON_parse now data s)) = []"
    by (auto simp: ok_result_def failed_result_def)
next
  show "fst (fst (useCreateInvoiceAction JSON_parse now data s)) = Invalid \<longleftrightarrow>
      fst (fst (useCreateInvoiceAction JSON_parse' now' data s')) = Invalid"
    by (simp only: useCreateInvoiceAction_Invalid)
qed

text \<open>
  Witness for C6 as amended: a submission with an empty itemsJSON is rejected and changes
  nothing; the submissions with the empty list and with quantity -3 are not rejected.
\<close>

theorem create_invoice_validation_witness:
  "fst (fst (useCreateInvoiceAction sample_JSON_parse ''2024-05-01T10:00:00.000Z''
      \<lparr>CreateInvoiceData.customerId = Some 1, itemsJSON = Some []\<rparr> shop)) = Invalid \<and>
   snd (useCreateInvoiceAction sample_JSON_parse ''2024-05-01T10:00:00.000Z''
      \<lparr>CreateInvoiceData.customerId = Some 1, itemsJSON = Some []\<rparr> shop) = shop \<and>
   snd (fst (useCreateInvoiceAction sample_JSON_parse ''2024-05-01T10:00:00.000Z''
      \<lparr>CreateInvoiceData.customerId = Some 1, itemsJSON = Some []\<rparr> shop)) = [] \<and>
   fst (fst (useCreateInvoiceAction sample_JSON_parse ''2024-05-01T10:00:00.000Z''
      (submit 1 ''[]'') shop)) \<noteq> Invalid \<and>
   fst (fst (useCreateInvoiceAction sample_JSON_parse ''2024-05-01T10:00:00.000Z''
      (submit 1 returned_json) shop)) \<noteq> Invalid"
proof -
  note t1 = create_invoice_validation [of sample_JSON_parse "''2024-05-01T10:00:00.000Z''"
      "\<lparr>CreateInvoiceData.customerId = Some 1, itemsJSON = Some []\<rparr>" shop]
  note t2 = create_invoice_validation [of sample_JSON_parse "''2024-05-01T10:00:00.000Z''"
      "submit 1 ''[]''" shop]
  note t3 = create_invoice_validation [of sample_JSON_parse "''2024-05-01T10:00:00.000Z''"
      "submit 1 returned_json" shop]
  have c: "returned_json \<noteq> []" by (simp add: returned_json_def)
  from t1 have "fst (fst (useCreateInvoiceAction sample_JSON_parse ''2024-05-01T10:00:00.000Z''
      \<lparr>CreateInvoiceData.customerId = Some 1, itemsJSON = Some []\<rparr> shop)) = Invalid \<and>
   snd (useCreateInvoiceAction sample_JSON_parse ''2024-05-01T10:00:00.000Z''
      \<lparr>CreateInvoiceData.customerId = Some 1, itemsJSON = Some []\<rparr> shop) = shop \<and>
   snd (fst (useCreateInvoiceAction sample_JSON_parse ''2024-05-01T10:00:00.000Z''
      \<lparr>CreateInvoiceData.customerId = Some 1, itemsJSON = Some []\<rparr> shop)) = []"
    by simp
  moreover from t2
  have "fst (fst (useCreateInvoiceAction sample_JSON_parse ''2024-05-01T10:00:00.000Z''
      (submit 1 ''[]'') shop)) \<noteq> Invalid"
    by (simp add: submit_def)
  moreover from t3 c
  have "fst (fst (useCreateInvoiceAction sample_JSON_parse ''2024-05-01T10:00:00.000Z''
      (submit 1 returned_json) shop)) \<noteq> Invalid"
    by (simp add: submit_def)
  ultimately show ?thesis by blast
qed

section \<open>Adding a customer whose phone number is taken\<close>

text \<open>
  C7. Adding a customer whose phone number is already in use fails with the UNIQUE
  violation of the storage engine and leaves the customers table unchanged. The action
  does not catch the failure and return a structured result, as the create-invoice action
  does: with customer Ann holding phone 555, the submission of Bob with phone 555 passes
  the schema, the INSERT throws, and the outcome of the action is the uncaught exception.
\<close>

theorem duplicate_phone_uncaught:
  "useAddCustomerAction sample_is_email bob shop =
     (Uncaught (SqliteError SQLITE_CONSTRAINT_UNIQUE), shop) \<and>
   map Customer.phone (customers shop) = [''555'']"
  by (simp add: useAddCustomerAction_def insert_customers_def bob_def shop_eval)

section \<open>The result of the create-invoice action\<close>

text \<open>
  Counterexample to C8 as stated: the same submission on a database without invoices
  and on one that holds an invoice creates the invoices 1 and 2, and the action's result
  is the same \<^verbatim>\<open>{ success: true }\<close> both times, so it does not carry the new identity.
  A submission that fails on a foreign key returns the fixed message; the cause goes to
  the console.
\<close>

theorem result_without_identity_counterexample:
  "fst (useCreateInvoiceAction sample_JSON_parse ''2024-05-02T09:00:00.000Z''
          (submit 1 spec_json) shop) =
   fst (useCreateInvoiceAction sample_JSON_parse ''2024-05-02T09:00:00.000Z''
          (submit 1 spec_json) (run sample_is_email sample_JSON_parse spec_run)) \<and>
   map invoices_row.id (invoices (snd (useCreateInvoiceAction sample_JSON_parse
          ''2024-05-02T09:00:00.000Z'' (submit 1 spec_json) shop))) = [1] \<and>
   map invoices_row.id (invoices (snd (useCreateInvoiceAction sample_JSON_parse
          ''2024-05-02T09:00:00.000Z'' (submit 1 spec_json)
          (run sample_is_email sample_JSON_parse spec_run)))) = [1, 2] \<and>
   fst (useCreateInvoiceAction sample_JSON_parse ''2024-05-02T09:00:00.000Z''
          (submit 1 ghost_json) shop) =
     (Returned \<lparr>success = False, error = Some ''Failed to save invoice.''\<rparr>,
      [SqliteError SQLITE_CONSTRAINT_FOREIGNKEY])"
  unfolding create_second_invoice create_spec_invoice create_ghost_invoice
  by (simp add: new_invoice_def shop_eval fresh_rowid_def failed_result_def)

text \<open>
  C8, as amended. When the create-invoice action returns, its result is one of two fixed
  records. On success it is \<^verbatim>\<open>{ success: true }\<close>, nothing is logged, and the new invoice
  is in the store; the result does not carry its identity. On failure of the transaction
  it is \<^verbatim>\<open>{ success: false, error: "Failed to save invoice." }\<close>, the store is unchanged,
  and the exception the transaction threw is written to the error console, not attached to
  the result.
\<close>

theorem create_invoice_result:
  assumes "useCreateInvoiceAction JSON_parse now data s = ((Returned r, logged), s')"
  shows "(r = \<lparr>success = True, error = None\<rparr> \<and> logged = [] \<and>
          (\<exists>cid js its. CreateInvoiceData.customerId data = Some cid \<and>
             itemsJSON data = Some js \<and> JSON_parse js = Some its \<and>
             invoices s' = invoices s @ [new_invoice s cid now (computeTotalAmount its)])) \<or>
         (r = \<lparr>success = False, error = Some ''Failed to save invoice.''\<rparr> \<and> s' = s \<and>
          (\<exists>cid js its e s1. CreateInvoiceData.customerId data = Some cid \<and>
             itemsJSON data = Some js \<and> JSON_parse js = Some its \<and>
             invoice_body cid now (computeTotalAmount its) its s = (Inl e, s1) \<and>
             logged = [e]))"
  using useCreateInvoiceAction_cases [OF assms] invoice_body_Inr
  by (auto simp: ok_result_def failed_result_def)

text \<open>Witness for C8 as amended: the example submission, which succeeds.\<close>

theorem create_invoice_result_witness:
  "useCreateInvoiceAction sample_JSON_parse ''2024-05-02T09:00:00.000Z''
      (submit 1 spec_json) shop =
     ((Returned ok_result, []),
      snd (useCreateInvoiceAction sample_JSON_parse ''2024-05-02T09:00:00.000Z''
        (submit 1 spec_json) shop)) \<and>
   ok_result = \<lparr>success = True, error = None\<rparr> \<and>
   length (invoices (snd (useCreateInvoiceAction sample_JSON_parse ''2024-05-02T09:00:00.000Z''
        (submit 1 spec_json) shop))) = 1"
proof -
  have run: "useCreateInvoiceAction sample_JSON_parse ''2024-05-02T09:00:00.000Z''
      (submit 1 spec_json) shop =
     ((Returned ok_result, []),
      snd (useCreateInvoiceAction sample_JSON_parse ''2024-05-02T09:00:00.000Z''
        (submit 1 spec_json) shop))"
    by (simp add: create_spec_invoice)
  from create_invoice_result [OF run]
  have "length (invoices (snd (useCreateInvoiceAction sample_JSON_parse
        ''2024-05-02T09:00:00.000Z'' (submit 1 spec_json) shop))) = length (invoices shop) + 1"
    by (auto simp: ok_result_def)
  with run show ?thesis by (simp add: ok_result_def shop_eval)
qed

section \<open>Query ordering\<close>

text \<open>
  C9. For every store state the list-customers and list-products queries return the rows
  of their table ordered ascending by name, and the list-invoices query returns rows in
  descending order of createdAt, each made of an invoice row and the name of the customer
  whose id the invoice carries. Where customer ids are distinct and every invoice names an
  existing customer, as the keys of the schema enforce, every invoice is listed once.
\<close>

theorem query_ordering:
  "sorted (map Customer.name (useCustomersLoader s)) \<and>
   mset (useCustomersLoader s) = mset (customers s) \<and>
   sorted (map Product.name (useProductsLoader s)) \<and>
   mset (useProductsLoader s) = mset (products s) \<and>
   sorted (rev (map Invoice.createdAt (useInvoicesLoader s))) \<and>
   (\<forall>r \<in> set (useInvoicesLoader s).
      \<exists>i \<in> set (invoices s). \<exists>c \<in> set (customers s).
        Customer.id c = invoices_row.customerId i \<and> Invoice.id r = invoices_row.id i \<and>
        Invoice.customerId r = invoices_row.customerId i \<and>
        Invoice.createdAt r = invoices_row.createdAt i \<and>
        Invoice.totalAmount r = invoices_row.totalAmount i \<and>
        customerName r = Customer.name c) \<and>
   (customer_keys_ok s \<longrightarrow>
      mset (map Invoice.id (useInvoicesLoader s)) = mset (map invoices_row.id (invoices s)))"
proof (intro conjI ballI impI)
  show "sorted (map Customer.name (useCustomersLoader s))"
    by (simp add: useCustomersLoader_def)
  show "mset (useCustomersLoader s) = mset (customers s)"
    by (simp add: useCustomersLoader_def)
  show "sorted (map Product.name (useProductsLoader s))"
    by (simp add: useProductsLoader_def)
  show "mset (useProductsLoader s) = mset (products s)"
    by (simp add: useProductsLoader_def)
  show "sorted (rev (map Invoice.createdAt (useInvoicesLoader s)))"
    by (simp add: useInvoicesLoader_createdAt)
next
  fix r assume "r \<in> set (useInvoicesLoader s)"
  from useInvoicesLoader_rows [OF this] obtain j where
    j: "j \<in> set (invoices_join s)" "Invoice.id r = Invoice.id j"
      "Invoice.customerId r = Invoice.customerId j" "Invoice.createdAt r = Invoice.createdAt j"
      "Invoice.totalAmount r = Invoice.totalAmount j" "customerName r = customerName j"
    by blast
  from invoices_join_rows [OF j(1)] j(2-6)
  show "\<exists>i \<in> set (invoices s). \<exists>c \<in> set (customers s).
        Customer.id c = invoices_row.customerId i \<and> Invoice.id r = invoices_row.id i \<and>
        Invoice.customerId r = invoices_row.customerId i \<and>
        Invoice.createdAt r = invoices_row.createdAt i \<and>
        Invoice.totalAmount r = invoices_row.totalAmount i \<and>
        customerName r = Customer.name c"
    by simp
next
  assume "customer_keys_ok s"
  then show "mset (map Invoice.id (useInvoicesLoader s)) =
      mset (map invoices_row.id (invoices s))"
    using useInvoicesLoader_ids [of s] invoices_join_ids [of s] by simp
qed

text \<open>
  Witness for C9: customers entered as Zed, Ann are listed Ann, Zed; products entered as
  Widget, Gadget are listed Gadget, Widget; the invoice of 2 May (Zed's) is listed before
  the invoice of 1 May (Ann's).
\<close>

theorem query_ordering_witness:
  "map Customer.name (useCustomersLoader busy) = [''Ann'', ''Zed''] \<and>
   map Product.name (useProductsLoader busy) = [''Gadget'', ''Widget''] \<and>
   map (\<lambda>r. (Invoice.id r, Invoice.createdAt r, customerName r)) (useInvoicesLoader busy) =
     [(2, ''2024-05-02T09:00:00.000Z'', ''Zed''), (1, ''2024-05-01T10:00:00.000Z'', ''Ann'')] \<and>
   customer_keys_ok busy \<and>
   sorted (rev (map Invoice.createdAt (useInvoicesLoader busy))) \<and>
   mset (map Invoice.id (useInvoicesLoader busy)) = mset (map invoices_row.id (invoices busy))"
proof -
  have k: "customer_keys_ok busy"
    by (simp add: customer_keys_ok_def busy_eval)
  have c: "map Customer.name (useCustomersLoader busy) = [''Ann'', ''Zed'']"
    by (simp add: useCustomersLoader_def busy_eval)
  have p: "map Product.name (useProductsLoader busy) = [''Gadget'', ''Widget'']"
    by (simp add: useProductsLoader_def busy_eval)
  have i: "map (\<lambda>r. (Invoice.id r, Invoice.createdAt r, customerName r))
      (useInvoicesLoader busy) =
     [(2, ''2024-05-02T09:00:00.000Z'', ''Zed''), (1, ''2024-05-01T10:00:00.000Z'', ''Ann'')]"
    by (simp add: useInvoicesLoader_def invoices_join_def busy_eval)
  from query_ordering [of busy] k
  have "sorted (rev (map Invoice.createdAt (useInvoicesLoader busy))) \<and>
   mset (map Invoice.id (useInvoicesLoader busy)) = mset (map invoices_row.id (invoices busy))"
    by blast
  with k c p i show ?thesis by blast
qed

section \<open>Invoice history\<close>

text \<open>
  C10. In the invoice-history query the items of an invoice are the rows of invoice_items
  for that invoice joined with the current products rows on productId. Every listed item
  takes quantity, price and tax from the stored quantity, priceAtSale and taxAtSale of its
  invoice_items row, and name and description from the current products row with that id.
  The snapshot columns are the same after any change to the products rows that keeps their
  ids. A line item whose product has no row contributes nothing: the list is the one the
  query gives on the items whose product is present, and where product ids are distinct it
  holds one row for each of them.
\<close>

theorem history_items_snapshot_and_live:
  "(\<forall>inv \<in> set (useInvoicesLoader s). items inv = itemsStmt_all s (Invoice.id inv)) \<and>
   (\<forall>r \<in> set (itemsStmt_all s i).
      \<exists>ii \<in> set (invoice_items s). \<exists>p \<in> set (products s).
        invoiceId ii = i \<and> productId ii = Product.id p \<and>
        history_item.quantity r = invoice_items_row.quantity ii \<and>
        history_item.price r = priceAtSale ii \<and> history_item.tax r = taxAtSale ii \<and>
        history_item.name r = Product.name p \<and>
        history_item.description r = Product.description p) \<and>
   ((\<forall>p. Product.id (f p) = Product.id p) \<longrightarrow>
      map snapshot (itemsStmt_all (s\<lparr>products := map f (products s)\<rparr>) i) =
      map snapshot (itemsStmt_all s i)) \<and>
   itemsStmt_all (s\<lparr>invoice_items :=
       filter (\<lambda>ii. productId ii \<in> set (map Product.id (products s))) (invoice_items s)\<rparr>) i =
     itemsStmt_all s i \<and>
   (distinct (map Product.id (products s)) \<longrightarrow>
      length (itemsStmt_all s i) =
      length (filter (\<lambda>ii. productId ii \<in> set (map Product.id (products s))) (lines_of s i)))"
proof (intro conjI ballI impI)
  fix inv assume "inv \<in> set (useInvoicesLoader s)"
  from useInvoicesLoader_rows [OF this]
  show "items inv = itemsStmt_all s (Invoice.id inv)" by auto
next
  fix r assume "r \<in> set (itemsStmt_all s i)"
  then show "\<exists>ii \<in> set (invoice_items s). \<exists>p \<in> set (products s).
        invoiceId ii = i \<and> productId ii = Product.id p \<and>
        history_item.quantity r = invoice_items_row.quantity ii \<and>
        history_item.price r = priceAtSale ii \<and> history_item.tax r = taxAtSale ii \<and>
        history_item.name r = Product.name p \<and>
        history_item.description r = Product.description p"
    by (rule itemsStmt_all_rows)
next
  assume "\<forall>p. Product.id (f p) = Product.id p"
  then show "map snapshot (itemsStmt_all (s\<lparr>products := map f (products s)\<rparr>) i) =
      map snapshot (itemsStmt_all s i)"
    by (intro itemsStmt_all_snapshot) simp
next
  show "itemsStmt_all (s\<lparr>invoice_items :=
       filter (\<lambda>ii. productId ii \<in> set (map Product.id (products s))) (invoice_items s)\<rparr>) i =
     itemsStmt_all s i"
    by (rule itemsStmt_all_omits)
next
  assume "distinct (map Product.id (products s))"
  then show "length (itemsStmt_all s i) =
      length (filter (\<lambda>ii. productId ii \<in> set (map Product.id (products s))) (lines_of s i))"
    by (rule itemsStmt_all_length)
qed

text \<open>
  Witness for C10: after product 1 is renamed and repriced and the row of product 2 is
  gone, each invoice lists one item of its two, under the new name and at the price and
  tax of the sale.
\<close>

theorem history_items_snapshot_and_live_witness:
  "map (\<lambda>inv. (Invoice.id inv, items inv)) (useInvoicesLoader retouched) =
     [(2, [\<lparr>history_item.name = ''Widget Pro'', history_item.description = Some ''renamed'',
        history_item.quantity = 2, history_item.price = 100, history_item.tax = 10\<rparr>]),
      (1, [\<lparr>history_item.name = ''Widget Pro'', history_item.description = Some ''renamed'',
        history_item.quantity = 2, history_item.price = 100, history_item.tax = 10\<rparr>])] \<and>
   map snapshot (itemsStmt_all busy 1) = [(2, 100, 10), (1, 50, 0)] \<and>
   map snapshot (itemsStmt_all (busy\<lparr>products :=
       map (\<lambda>p. p\<lparr>Product.name := ''Renamed'', Product.price := 999\<rparr>) (products busy)\<rparr>) 1) =
     [(2, 100, 10), (1, 50, 0)] \<and>
   distinct (map Product.id (products retouched)) \<and>
   length (itemsStmt_all retouched 1) = 1 \<and> length (lines_of retouched 1) = 2"
proof -
  have l: "map (\<lambda>inv. (Invoice.id inv, items inv)) (useInvoicesLoader retouched) =
     [(2, [\<lparr>history_item.name = ''Widget Pro'', history_item.description = Some ''renamed'',
        history_item.quantity = 2, history_item.price = 100, history_item.tax = 10\<rparr>]),
      (1, [\<lparr>history_item.name = ''Widget Pro'', history_item.description = Some ''renamed'',
        history_item.quantity = 2, history_item.price = 100, history_item.tax = 10\<rparr>])]"
    by (simp add: useInvoicesLoader_def invoices_join_def itemsStmt_all_def retouched_def
        busy_eval)
  have b: "map snapshot (itemsStmt_all busy 1) = [(2, 100, 10), (1, 50, 0)]"
    by (simp add: itemsStmt_all_def busy_eval snapshot_def)
  have d: "distinct (map Product.id (products retouched))"
    by (simp add: retouched_def)
  have n: "length (lines_of retouched 1) = 2"
    by (simp add: lines_of_def retouched_def busy_eval)
  have k: "length (filter (\<lambda>ii. productId ii \<in> set (map Product.id (products retouched)))
      (lines_of retouched 1)) = 1"
    by (simp add: lines_of_def retouched_def busy_eval)
  from history_items_snapshot_and_live [of retouched 1 "\<lambda>p. p"] d k
  have o: "length (itemsStmt_all retouched 1) = 1" by simp
  from history_items_snapshot_and_live [of busy 1
      "\<lambda>p. p\<lparr>Product.name := ''Renamed'', Product.price := 999\<rparr>"] b
  have "map snapshot (itemsStmt_all (busy\<lparr>products :=
       map (\<lambda>p. p\<lparr>Product.name := ''Renamed'', Product.price := 999\<rparr>) (products busy)\<rparr>) 1) =
     [(2, 100, 10), (1, 50, 0)]"
    by simp
  with l b d n o show ?thesis by blast
qed

end
